theory Spec2Isabelle
  imports Main "HOL-Library.Word"
begin

section \<open>Python values and effects used by hbuzz.py\<close>

text \<open>
  The exceptions the script can meet. The first datatype lists subclasses of Python's
  \<open>Exception\<close> (what \<open>except Exception\<close> catches); \<open>KeyboardInterrupt\<close> and
  \<open>SystemExit\<close> derive from \<open>BaseException\<close> only and pass through such a handler.
\<close>

datatype py_exception =
    ImportError string
  | OSError string
  | ValueError string
  | StructError string

datatype py_exc =
    Exc py_exception
  | KeyboardInterrupt
  | SystemExit int

fun str_exception :: "py_exception \<Rightarrow> string" where
  "str_exception (ImportError m) = m"
| "str_exception (OSError m) = m"
| "str_exception (ValueError m) = m"
| "str_exception (StructError m) = m"

type_synonym byte = "8 word"

text \<open>
  The observable world of one run: the lines printed, the buffers handed to
  \<open>device.write\<close> (one entry per call, in order, whether or not the call raised), the
  arguments of the \<open>time.sleep\<close> calls, the path of the HID device the handle is open on
  (\<open>None\<close> for a handle that is not open) and the number of \<open>device.close\<close> calls.
\<close>

record world =
  stdout :: "string list"
  write_calls :: "byte list list"
  sleep_calls :: "int list"
  opened :: "string option"
  close_calls :: nat

text \<open>A statement either completes with a value or raises; the world is kept either way.\<close>

type_synonym 'a res = "(py_exc + 'a) \<times> world"

definition print :: "string \<Rightarrow> world \<Rightarrow> world" where
  "print s w = w\<lparr>stdout := stdout w @ [s]\<rparr>"

text \<open>
  \<open>device.write(message)\<close>. What the library and the hardware answer is outside the
  script: the answer to the k-th write call of the run is given by an oracle
  (\<open>None\<close>: the call returns; \<open>Some e\<close>: the call raises \<open>e\<close>).
\<close>

type_synonym write_oracle = "nat \<Rightarrow> py_exc option"

definition device_write :: "write_oracle \<Rightarrow> byte list \<Rightarrow> world \<Rightarrow> unit res" where
  "device_write dev message w =
     (let w' = w\<lparr>write_calls := write_calls w @ [message]\<rparr>
      in case dev (length (write_calls w)) of
           None \<Rightarrow> (Inr (), w')
         | Some e \<Rightarrow> (Inl e, w'))"

section \<open>struct.pack with the format <BBBHHH\<close>

text \<open>
  The format starts with \<open><\<close>: little-endian, standard sizes, no alignment padding.
  \<open>B\<close> is one unsigned byte, \<open>H\<close> two bytes, low byte first. CPython's \<open>struct.pack\<close>
  raises \<open>struct.error\<close> for an integer outside the range of its field; it does not
  wrap. The message names the field's range, except for an integer that does not fit
  a 64-bit signed integer, where it is \<open>argument out of range\<close>.
\<close>

definition pack_B :: "int \<Rightarrow> py_exception + byte list" where
  "pack_B v =
     (if 0 \<le> v \<and> v \<le> 255 then Inr [word_of_int v]
      else if v < - (2 ^ 63) \<or> 2 ^ 63 \<le> v then Inl (StructError ''argument out of range'')
      else Inl (StructError ''ubyte format requires 0 <= number <= 255''))"

definition pack_H :: "int \<Rightarrow> py_exception + byte list" where
  "pack_H v =
     (if 0 \<le> v \<and> v \<le> 65535 then Inr [word_of_int (v mod 256), word_of_int (v div 256)]
      else if v < - (2 ^ 63) \<or> 2 ^ 63 \<le> v then Inl (StructError ''argument out of range'')
      else Inl (StructError ''ushort format requires 0 <= number <= 65535''))"

text \<open>Fields are packed left to right; the first field that does not fit raises.\<close>

fun pack_fields :: "(py_exception + byte list) list \<Rightarrow> py_exception + byte list" where
  "pack_fields [] = Inr []"
| "pack_fields (f # fs) =
     (case f of
        Inl e \<Rightarrow> Inl e
      | Inr bs \<Rightarrow> (case pack_fields fs of Inl e \<Rightarrow> Inl e | Inr rest \<Rightarrow> Inr (bs @ rest)))"

definition struct_pack_BBBHHH ::
  "int \<Rightarrow> int \<Rightarrow> int \<Rightarrow> int \<Rightarrow> int \<Rightarrow> int \<Rightarrow> py_exception + byte list" where
  "struct_pack_BBBHHH b0 b1 b2 h0 h1 h2 =
     pack_fields [pack_B b0, pack_B b1, pack_B b2, pack_H h0, pack_H h1, pack_H h2]"

section \<open>send_haptic_pulse\<close>

definition HAPTIC_CMD :: int where
  "HAPTIC_CMD = 0x8f"

definition HAPTIC_SUBCMD :: int where
  "HAPTIC_SUBCMD = 0x07"

text \<open>Lines 40 to 46: the pad ids implied by the selector.\<close>

definition select_pads :: "string \<Rightarrow> int list" where
  "select_pads pad =
     (if pad = ''both'' then [0x00, 0x01]
      else if pad = ''left'' then [0x01]
      else [0x00])"

text \<open>
  Lines 48 to 65: the loop over the pad ids. The pack is outside the \<open>try\<close>, so a
  \<open>struct.error\<close> leaves the function; the write is inside it, and its handler catches
  subclasses of \<open>Exception\<close> only, prints and goes on with the next pad id.
\<close>

fun send_pads :: "write_oracle \<Rightarrow> int list \<Rightarrow> int \<Rightarrow> int \<Rightarrow> int \<Rightarrow> world \<Rightarrow> unit res" where
  "send_pads dev [] amplitude period count w = (Inr (), w)"
| "send_pads dev (pad_id # pads) amplitude period count w =
     (case struct_pack_BBBHHH HAPTIC_CMD HAPTIC_SUBCMD pad_id amplitude period count of
        Inl e \<Rightarrow> (Inl (Exc e), w)
      | Inr packed \<Rightarrow>
          (let message = packed @ replicate (64 - length packed) 0
           in case device_write dev message w of
                (Inr u, w') \<Rightarrow> send_pads dev pads amplitude period count w'
              | (Inl (Exc e), w') \<Rightarrow>
                  send_pads dev pads amplitude period count
                    (print (''Error sending haptic command: '' @ str_exception e) w')
              | (Inl e, w') \<Rightarrow> (Inl e, w')))"

definition send_haptic_pulse ::
  "write_oracle \<Rightarrow> string \<Rightarrow> int \<Rightarrow> int \<Rightarrow> int \<Rightarrow> world \<Rightarrow> unit res" where
  "send_haptic_pulse dev pad amplitude period count w =
     send_pads dev (select_pads pad) amplitude period count w"

section \<open>The hid library\<close>

text \<open>
  One entry of \<open>hid.enumerate\<close>: the keys of the dictionary the script reads or that
  decide which device an open reaches.
\<close>

record hid_device_info =
  vendor_id :: int
  product_id :: int
  interface_number :: int
  path :: string

text \<open>
  Ctrl+C is asynchronous: \<open>KeyboardInterrupt\<close> is raised wherever the interpreter is
  when the signal arrives. Inside a write or a sleep it is an answer of that call, and at
  the head of a loop iteration it is counted by the iteration. The other places of
  \<open>main\<close> where it changes what happens next:
  \<^item> \<open>AtStart\<close>: line 68, before anything is printed;
  \<^item> \<open>AtImport\<close>: line 74, at \<open>import hid\<close>;
  \<^item> \<open>AfterCreate\<close>: line 80, once \<open>hid.device()\<close> has returned and before the \<open>try\<close>
    of line 82 is entered;
  \<^item> \<open>DuringOpen\<close>: line 87, inside the \<open>try\<close>, before the open has an outcome;
  \<^item> \<open>InOSErrorHandler\<close>: line 108, at the start of the handler of \<open>OSError\<close>;
  \<^item> \<open>InInterruptHandler\<close>: line 117, in the handler of \<open>KeyboardInterrupt\<close>;
  \<^item> \<open>InFinally\<close>: line 120, in the \<open>finally\<close> clause before \<open>device.close()\<close> is called.
\<close>

datatype interrupt_point =
    AtStart
  | AtImport
  | AfterCreate
  | DuringOpen
  | InOSErrorHandler
  | InInterruptHandler
  | InFinally

text \<open>
  The environment of a run: whether \<open>import hid\<close> succeeds, the HID interfaces attached
  (in enumeration order), which paths the process may open, the answers of the
  device to each write call, the outcome of each \<open>time.sleep\<close> call, whether Ctrl+C
  arrives at the head of loop iteration k, that is after k completed iterations, and
  whether it arrives at each of the other places.
\<close>

record env =
  hid_installed :: bool
  attached :: "hid_device_info list"
  may_open :: "string \<Rightarrow> bool"
  write_result :: write_oracle
  sleep_result :: "nat \<Rightarrow> py_exc option"
  sigint_at_iteration :: "nat \<Rightarrow> bool"
  sigint_at :: "interrupt_point \<Rightarrow> bool"

text \<open>\<open>hid.enumerate(vendor_id, product_id)\<close>; 0 matches any id.\<close>

definition hid_enumerate :: "hid_device_info list \<Rightarrow> int \<Rightarrow> int \<Rightarrow> hid_device_info list" where
  "hid_enumerate devs vid pid =
     filter (\<lambda>d. (vid = 0 \<or> vendor_id d = vid) \<and> (pid = 0 \<or> product_id d = pid)) devs"

text \<open>A \<open>hid.device\<close> object: the path it is open on, \<open>None\<close> when it is not open.\<close>

datatype hid_device = HidDevice "string option"

text \<open>
  \<open>device.open(vendor_id, product_id)\<close> opens the first enumerated interface with these
  ids and raises \<open>OSError\<close> when there is none or when opening it fails.
\<close>

definition device_open :: "env \<Rightarrow> int \<Rightarrow> int \<Rightarrow> world \<Rightarrow> unit res" where
  "device_open e vid pid w =
     (case filter (\<lambda>d. vendor_id d = vid \<and> product_id d = pid)
             (hid_enumerate (attached e) vid pid) of
        [] \<Rightarrow> (Inl (Exc (OSError ''open failed'')), w)
      | d # ds \<Rightarrow>
          (if may_open e (path d) then (Inr (), w\<lparr>opened := Some (path d)\<rparr>)
           else (Inl (Exc (OSError ''open failed'')), w)))"

definition device_close :: "world \<Rightarrow> world" where
  "device_close w = w\<lparr>opened := None, close_calls := close_calls w + 1\<rparr>"

definition time_sleep :: "env \<Rightarrow> int \<Rightarrow> world \<Rightarrow> unit res" where
  "time_sleep e secs w =
     (let w' = w\<lparr>sleep_calls := sleep_calls w @ [secs]\<rparr>
      in case sleep_result e (length (sleep_calls w)) of
           None \<Rightarrow> (Inr (), w')
         | Some x \<Rightarrow> (Inl x, w'))"

section \<open>find_steam_deck_controller\<close>

definition VALVE_VENDOR_ID :: int where
  "VALVE_VENDOR_ID = 0x28de"

definition STEAM_DECK_PRODUCT_ID :: int where
  "STEAM_DECK_PRODUCT_ID = 0x1205"

text \<open>Lines 20 to 24: the first entry with interface number 2 returns a new \<open>hid.device()\<close>.\<close>

fun find_haptic_interface :: "hid_device_info list \<Rightarrow> hid_device option" where
  "find_haptic_interface [] = None"
| "find_haptic_interface (device # devices) =
     (if interface_number device = 2 then Some (HidDevice None)
      else find_haptic_interface devices)"

definition find_steam_deck_controller :: "env \<Rightarrow> world \<Rightarrow> (hid_device option) res" where
  "find_steam_deck_controller e w =
     (if \<not> hid_installed e then
        (Inl (SystemExit 1),
         print ''Error: hidapi library required. Install with: pip install hidapi'' w)
      else
        (Inr (find_haptic_interface
               (hid_enumerate (attached e) VALVE_VENDOR_ID STEAM_DECK_PRODUCT_ID)), w))"

section \<open>main\<close>

text \<open>
  Lines 92 to 105. The loop has no exit of its own: it ends when something raises, and
  the result is what was raised and the world at that moment. A run in which nothing
  ever raises does not return (\<open>None\<close>).
\<close>

partial_function (option) main_loop :: "env \<Rightarrow> nat \<Rightarrow> world \<Rightarrow> (py_exc \<times> world) option" where
  "main_loop e pulse_count w =
     (if sigint_at_iteration e pulse_count then Some (KeyboardInterrupt, w)
      else
        (case send_haptic_pulse (write_result e) ''both'' 0x8000 0x0032 4000 w of
           (Inl x, w1) \<Rightarrow> Some (x, w1)
         | (Inr u, w1) \<Rightarrow>
             (case time_sleep e 2 w1 of
                (Inl x, w2) \<Rightarrow> Some (x, w2)
              | (Inr u', w2) \<Rightarrow> main_loop e (pulse_count + 1) w2)))"

text \<open>Lines 82 to 105: the body of the \<open>try\<close>.\<close>

definition try_body :: "env \<Rightarrow> world \<Rightarrow> (py_exc \<times> world) option" where
  "try_body e w =
     (if sigint_at e DuringOpen then Some (KeyboardInterrupt, w)
      else
        (case device_open e VALVE_VENDOR_ID STEAM_DECK_PRODUCT_ID w of
           (Inl x, w1) \<Rightarrow> Some (x, w1)
         | (Inr u, w1) \<Rightarrow>
             main_loop e 0 (print [] (print ''Connected to Steam Deck controller'' w1))))"

text \<open>
  Lines 107 to 117: the two handlers; anything else goes on unhandled. An interrupt
  that arrives inside a handler is not caught by the other handler of the same \<open>try\<close>.
\<close>

definition newline :: string where
  "newline = [CHR 0x0A]"

fun handlers :: "env \<Rightarrow> py_exc \<Rightarrow> world \<Rightarrow> unit res" where
  "handlers e (Exc (OSError m)) w =
     (if sigint_at e InOSErrorHandler then (Inl KeyboardInterrupt, w)
      else
        (Inl (SystemExit 1),
         print ''required library is hidapi''
          (print ''You may need root permissions (try: sudo python3 script.py)''
            (print ''Make sure you're running on Steam Deck''
              (print (newline @ ''Troubleshooting:'')
                (print (''Details: '' @ m)
                  (print (newline @ ''Error: Could not open Steam Deck controler'') w)))))))"
| "handlers e KeyboardInterrupt w =
     (if sigint_at e InInterruptHandler then (Inl KeyboardInterrupt, w)
      else (Inr (), print (newline @ newline @ ''Exiting...'') w))"
| "handlers e x w = (Inl x, w)"

text \<open>
  Lines 119 and 120: the \<open>finally\<close> clause runs whatever the outcome of the body and
  the handlers. An interrupt that arrives in it before the call replaces that outcome,
  and \<open>close\<close> is not called.
\<close>

definition finally_close :: "env \<Rightarrow> unit res \<Rightarrow> unit res" where
  "finally_close e r =
     (if sigint_at e InFinally then (Inl KeyboardInterrupt, snd r)
      else (fst r, device_close (snd r)))"

text \<open>
  Lines 67 to 120. Lines 68 to 80 are outside the \<open>try\<close> of line 82: an interrupt
  there is not handled and no \<open>finally\<close> clause runs.
\<close>

definition main :: "env \<Rightarrow> world \<Rightarrow> (unit res) option" where
  "main e w =
     (if sigint_at e AtStart then Some (Inl KeyboardInterrupt, w)
      else
        (let w0 = print (replicate 40 CHR ''-'')
                   (print ''Press Ctrl+C to exit''
                     (print ''Steam Deck Haptic Feedback Test'' w))
         in if sigint_at e AtImport then Some (Inl KeyboardInterrupt, w0)
            else if \<not> hid_installed e then
              Some (Inl (SystemExit 1),
                    print ''  pip install hidapi''
                      (print (newline @ ''Please install hidapi:'') w0))
            else if sigint_at e AfterCreate then
              Some (Inl KeyboardInterrupt, w0\<lparr>opened := None\<rparr>)
            else
              (case try_body e (w0\<lparr>opened := None\<rparr>) of
                 None \<Rightarrow> None
               | Some (x, w1) \<Rightarrow> Some (finally_close e (handlers e x w1)))))"

text \<open>The run reaches the \<open>try\<close> of line 82: the library is there and no interrupt came before.\<close>

definition enters_try :: "env \<Rightarrow> bool" where
  "enters_try e =
     (hid_installed e \<and> \<not> sigint_at e AtStart \<and> \<not> sigint_at e AtImport \<and>
      \<not> sigint_at e AfterCreate)"

text \<open>
  The status the interpreter exits with: 0 when \<open>main\<close> returns, the argument of
  \<open>sys.exit\<close>, 130 for a \<open>KeyboardInterrupt\<close> that reaches the top, and 1 for any other
  exception that does.
\<close>

fun exit_status :: "py_exc + unit \<Rightarrow> int" where
  "exit_status (Inr u) = 0"
| "exit_status (Inl (SystemExit n)) = n"
| "exit_status (Inl KeyboardInterrupt) = 130"
| "exit_status (Inl (Exc x)) = 1"

text \<open>The world before the script starts.\<close>

definition initial_world :: world where
  "initial_world = \<lparr>stdout = [], write_calls = [], sleep_calls = [], opened = None, close_calls = 0\<rparr>"

section \<open>Reference definitions for the report\<close>

text \<open>The range of an unsigned 16-bit field, which the docstring gives for the amplitude.\<close>

definition in_u16 :: "int \<Rightarrow> bool" where
  "in_u16 v = (0 \<le> v \<and> v \<le> 0xFFFF)"

text \<open>
  The wire format as the specification words it: command, subcommand, pad id, three
  16-bit fields with the low byte first, zero padding up to 64 bytes.
\<close>

definition spec_wire_format :: "int \<Rightarrow> int \<Rightarrow> int \<Rightarrow> int \<Rightarrow> byte list" where
  "spec_wire_format pad_id amplitude period count =
     [0x8f, 0x07, word_of_int pad_id,
      word_of_int (amplitude mod 256), word_of_int (amplitude div 256),
      word_of_int (period mod 256), word_of_int (period div 256),
      word_of_int (count mod 256), word_of_int (count div 256)] @ replicate 55 0"

text \<open>Reading a little-endian 16-bit field back from its two bytes.\<close>

definition le16_decode :: "byte \<Rightarrow> byte \<Rightarrow> int" where
  "le16_decode lo hi = uint lo + 256 * uint hi"

text \<open>The line the handler of a failed write prints, for the k-th write call.\<close>

definition error_line :: "write_oracle \<Rightarrow> nat \<Rightarrow> string list" where
  "error_line dev k =
     (case dev k of
        Some (Exc x) \<Rightarrow> [''Error sending haptic command: '' @ str_exception x]
      | _ \<Rightarrow> [])"

text \<open>The two reports of one loop iteration (line 97): right pad, then left pad.\<close>

definition pulse_reports :: "byte list list" where
  "pulse_reports = [spec_wire_format 0 0x8000 0x0032 4000, spec_wire_format 1 0x8000 0x0032 4000]"

section \<open>Environments used as examples\<close>

text \<open>A device on which every write returns.\<close>

definition no_answer :: write_oracle where
  "no_answer k = None"

text \<open>A device on which the first write raises \<open>OSError\<close> and the later ones return.\<close>

definition first_write_fails :: write_oracle where
  "first_write_fails k = (if k = 0 then Some (Exc (OSError ''write error'')) else None)"

text \<open>
  The controller of a Steam Deck as \<open>hid.enumerate\<close> lists it: one USB device with three
  HID interfaces, the haptic one last.
\<close>

definition deck_interfaces :: "hid_device_info list" where
  "deck_interfaces =
     [\<lparr>vendor_id = 0x28de, product_id = 0x1205, interface_number = 0, path = ''/dev/hidraw0''\<rparr>,
      \<lparr>vendor_id = 0x28de, product_id = 0x1205, interface_number = 1, path = ''/dev/hidraw1''\<rparr>,
      \<lparr>vendor_id = 0x28de, product_id = 0x1205, interface_number = 2, path = ''/dev/hidraw2''\<rparr>]"

text \<open>
  A run on that machine: the library is installed, every path may be opened, the first
  write fails, no sleep is disturbed, and Ctrl+C arrives after three iterations and
  nowhere else.
\<close>

definition example_env :: env where
  "example_env =
     \<lparr>hid_installed = True, attached = deck_interfaces, may_open = (\<lambda>p. True),
      write_result = first_write_fails, sleep_result = (\<lambda>k. None),
      sigint_at_iteration = (\<lambda>k. k = 3), sigint_at = (\<lambda>p. False)\<rparr>"


definition env_without_device :: env where
  "env_without_device = example_env\<lparr>attached := []\<rparr>"

text \<open>The same run with Ctrl+C arriving during the third sleep instead.\<close>

definition env_sleep_interrupted :: env where
  "env_sleep_interrupted =
     example_env\<lparr>sleep_result := (\<lambda>k. if k = 2 then Some KeyboardInterrupt else None),
                  sigint_at_iteration := (\<lambda>k. False)\<rparr>"


definition env_sigint_after_create :: env where
  "env_sigint_after_create = example_env\<lparr>sigint_at := (\<lambda>p. p = AfterCreate)\<rparr>"


section \<open>Packing and sending: auxiliary facts\<close>

lemma pack_in_range:
  assumes "in_u16 a" "in_u16 p" "in_u16 c" "0 \<le> pid" "pid \<le> 255"
  shows "struct_pack_BBBHHH HAPTIC_CMD HAPTIC_SUBCMD pid a p c =
     Inr [0x8f, 0x07, word_of_int pid,
      word_of_int (a mod 256), word_of_int (a div 256),
      word_of_int (p mod 256), word_of_int (p div 256),
      word_of_int (c mod 256), word_of_int (c div 256)]"
  using assms
  by (simp add: struct_pack_BBBHHH_def pack_B_def pack_H_def HAPTIC_CMD_def HAPTIC_SUBCMD_def
      in_u16_def)

lemma pack_out_of_range:
  assumes "\<not> (in_u16 a \<and> in_u16 p \<and> in_u16 c)"
  shows "\<exists>m. struct_pack_BBBHHH HAPTIC_CMD HAPTIC_SUBCMD pid a p c = Inl (StructError m)"
  using assms
  by (auto simp add: struct_pack_BBBHHH_def pack_B_def pack_H_def HAPTIC_CMD_def HAPTIC_SUBCMD_def
      in_u16_def)

lemma send_pads_step:
  assumes "in_u16 a" "in_u16 p" "in_u16 c" "0 \<le> pid" "pid \<le> 255"
  shows "send_pads dev (pid # pads) a p c w =
     (case dev (length (write_calls w)) of
        None \<Rightarrow> send_pads dev pads a p c (w\<lparr>write_calls := write_calls w @ [spec_wire_format pid a p c]\<rparr>)
      | Some (Exc x) \<Rightarrow> send_pads dev pads a p c
           (print (''Error sending haptic command: '' @ str_exception x)
              (w\<lparr>write_calls := write_calls w @ [spec_wire_format pid a p c]\<rparr>))
      | Some y \<Rightarrow> (Inl y, w\<lparr>write_calls := write_calls w @ [spec_wire_format pid a p c]\<rparr>))"
  by (simp add: pack_in_range [OF assms] spec_wire_format_def device_write_def Let_def
      split: option.splits py_exc.splits)

declare send_pads.simps(2) [simp del]

lemma send_pads_prefix:
  assumes "in_u16 a" "in_u16 p" "in_u16 c" "\<forall>pid\<in>set pads. 0 \<le> pid \<and> pid \<le> 255"
  shows "\<exists>n\<le>length pads. write_calls (snd (send_pads dev pads a p c w)) =
           write_calls w @ map (\<lambda>pid. spec_wire_format pid a p c) (take n pads)"
  using assms(4)
proof (induction pads arbitrary: w)
  case Nil
  then show ?case by simp
next
  case (Cons pid pads)
  have r: "0 \<le> pid" "pid \<le> 255" using Cons.prems by simp_all
  have rest: "\<forall>pid\<in>set pads. 0 \<le> pid \<and> pid \<le> 255" using Cons.prems by simp
  let ?m = "spec_wire_format pid a p c"
  let ?w1 = "w\<lparr>write_calls := write_calls w @ [?m]\<rparr>"
  show ?case
  proof (cases "dev (length (write_calls w))")
    case None
    from Cons.IH [OF rest, of ?w1] obtain n where
      n: "n \<le> length pads" "write_calls (snd (send_pads dev pads a p c ?w1)) =
           write_calls ?w1 @ map (\<lambda>pid. spec_wire_format pid a p c) (take n pads)" by blast
    show ?thesis
      by (rule exI [of _ "Suc n"]) (use n None in \<open>simp add: send_pads_step [OF assms(1-3) r]\<close>)
  next
    case (Some y)
    show ?thesis
    proof (cases y)
      case (Exc x)
      let ?w2 = "print (''Error sending haptic command: '' @ str_exception x) ?w1"
      from Cons.IH [OF rest, of ?w2] obtain n where
        n: "n \<le> length pads" "write_calls (snd (send_pads dev pads a p c ?w2)) =
           write_calls ?w2 @ map (\<lambda>pid. spec_wire_format pid a p c) (take n pads)" by blast
      show ?thesis
        by (rule exI [of _ "Suc n"])
          (use n Some Exc in \<open>simp add: send_pads_step [OF assms(1-3) r] print_def\<close>)
    next
      case KeyboardInterrupt
      show ?thesis
        by (rule exI [of _ "Suc 0"])
          (use Some KeyboardInterrupt in \<open>simp add: send_pads_step [OF assms(1-3) r]\<close>)
    next
      case (SystemExit k)
      show ?thesis
        by (rule exI [of _ "Suc 0"])
          (use Some SystemExit in \<open>simp add: send_pads_step [OF assms(1-3) r]\<close>)
    qed
  qed
qed

lemma send_pads_all:
  assumes "in_u16 a" "in_u16 p" "in_u16 c" "\<forall>pid\<in>set pads. 0 \<le> pid \<and> pid \<le> 255"
    and dev: "\<forall>k y. dev k = Some y \<longrightarrow> (\<exists>x. y = Exc x)"
  shows "send_pads dev pads a p c w =
     (Inr (), w\<lparr>write_calls := write_calls w @ map (\<lambda>pid. spec_wire_format pid a p c) pads,
               stdout := stdout w @ concat (map (error_line dev) [length (write_calls w) ..< length (write_calls w) + length pads])\<rparr>)"
  using assms(4)
proof (induction pads arbitrary: w)
  case Nil
  then show ?case by simp
next
  case (Cons pid pads)
  have r: "0 \<le> pid" "pid \<le> 255" using Cons.prems by simp_all
  have rest: "\<forall>pid\<in>set pads. 0 \<le> pid \<and> pid \<le> 255" using Cons.prems by simp
  let ?k = "length (write_calls w)"
  have up: "[?k ..< ?k + length (pid # pads)] = ?k # [Suc ?k ..< Suc ?k + length pads]"
    by (subst upt_conv_Cons) simp_all
  show ?case
  proof (cases "dev ?k")
    case None
    then show ?thesis
      unfolding up
      by (simp add: send_pads_step [OF assms(1-3) r] Cons.IH [OF rest] error_line_def)
  next
    case (Some y)
    with dev obtain x where y: "y = Exc x" by blast
    show ?thesis
      unfolding up using Some y
      by (simp add: send_pads_step [OF assms(1-3) r] Cons.IH [OF rest] error_line_def print_def)
  qed
qed

lemma spec_wire_format_bytes:
  "length (spec_wire_format pid a p c) = 64"
  "spec_wire_format pid a p c ! 0 = 0x8f"
  "spec_wire_format pid a p c ! 1 = 0x07"
  "spec_wire_format pid a p c ! 2 = word_of_int pid"
  "spec_wire_format pid a p c ! 3 = word_of_int (a mod 256)"
  "spec_wire_format pid a p c ! 4 = word_of_int (a div 256)"
  "spec_wire_format pid a p c ! 5 = word_of_int (p mod 256)"
  "spec_wire_format pid a p c ! 6 = word_of_int (p div 256)"
  "spec_wire_format pid a p c ! 7 = word_of_int (c mod 256)"
  "spec_wire_format pid a p c ! 8 = word_of_int (c div 256)"
  by (simp_all add: spec_wire_format_def)

lemma spec_wire_format_padding:
  "9 \<le> i \<Longrightarrow> i < 64 \<Longrightarrow> spec_wire_format pid a p c ! i = 0"
  by (simp add: spec_wire_format_def nth_append)

lemma select_pads_range: "\<forall>pid\<in>set (select_pads pad). 0 \<le> pid \<and> pid \<le> 255"
  by (simp add: select_pads_def)

lemma send_haptic_pulse_all:
  assumes "in_u16 a" "in_u16 p" "in_u16 c"
    and dev: "\<forall>k y. dev k = Some y \<longrightarrow> (\<exists>x. y = Exc x)"
  shows "send_haptic_pulse dev pad a p c w =
     (Inr (), w\<lparr>write_calls := write_calls w @ map (\<lambda>pid. spec_wire_format pid a p c) (select_pads pad),
               stdout := stdout w @ concat (map (error_line dev)
                  [length (write_calls w) ..< length (write_calls w) + length (select_pads pad)])\<rparr>)"
  unfolding send_haptic_pulse_def
  by (rule send_pads_all [OF assms(1-3) select_pads_range dev])

lemma le16_roundtrip:
  assumes "in_u16 v"
  shows "le16_decode (word_of_int (v mod 256)) (word_of_int (v div 256)) = v"
proof -
  from assms have v: "0 \<le> v" "v < 65536" by (simp_all add: in_u16_def)
  have lo: "uint (word_of_int (v mod 256) :: byte) = v mod 256"
    by (simp add: uint_word_of_int)
  have "0 \<le> v div 256" "v div 256 < 256" using v by simp_all
  then have hi: "uint (word_of_int (v div 256) :: byte) = v div 256"
    by (simp add: uint_word_of_int)
  show ?thesis unfolding le16_decode_def lo hi by simp
qed


lemma send_pads_reject:
  assumes "\<not> (in_u16 a \<and> in_u16 p \<and> in_u16 c)"
  shows "\<exists>msg. send_pads dev (pid # pads) a p c w = (Inl (Exc (StructError msg)), w)"
proof -
  from pack_out_of_range [OF assms, of pid] obtain msg where
    "struct_pack_BBBHHH HAPTIC_CMD HAPTIC_SUBCMD pid a p c = Inl (StructError msg)" by blast
  then show ?thesis by (simp add: send_pads.simps(2))
qed

lemma select_pads_Cons: "\<exists>pid pads. select_pads pad = pid # pads"
  by (simp add: select_pads_def)

lemma send_haptic_pulse_first:
  assumes "in_u16 a" "in_u16 p" "in_u16 c"
  shows "\<exists>pid n. pid \<in> set (select_pads pad) \<and>
           write_calls (snd (send_haptic_pulse dev pad a p c w)) =
             write_calls w @ spec_wire_format pid a p c #
               map (\<lambda>q. spec_wire_format q a p c) (take n (tl (select_pads pad)))"
proof -
  let ?f = "\<lambda>q. spec_wire_format q a p c"
  obtain pid pads where sp: "select_pads pad = pid # pads"
    using select_pads_Cons by blast
  have rng: "\<forall>q\<in>set (pid # pads). 0 \<le> q \<and> q \<le> 255"
    using select_pads_range [of pad] unfolding sp .
  then have r: "0 \<le> pid" "pid \<le> 255" and rest: "\<forall>q\<in>set pads. 0 \<le> q \<and> q \<le> 255"
    by simp_all
  let ?w1 = "w\<lparr>write_calls := write_calls w @ [?f pid]\<rparr>"
  have tail: "\<exists>n. write_calls (snd (send_pads dev pads a p c v)) =
                 write_calls w @ ?f pid # map ?f (take n pads)"
    if "write_calls v = write_calls w @ [?f pid]" for v
    using send_pads_prefix [OF assms rest, of dev v] that by auto
  have "\<exists>n. write_calls (snd (send_pads dev (pid # pads) a p c w)) =
                 write_calls w @ ?f pid # map ?f (take n pads)"
  proof (cases "dev (length (write_calls w))")
    case None
    then show ?thesis
      unfolding send_pads_step [OF assms r] by (simp add: tail)
  next
    case (Some y)
    show ?thesis
    proof (cases y)
      case (Exc x)
      with Some show ?thesis
        unfolding send_pads_step [OF assms r] by (simp add: tail print_def)
    next
      case KeyboardInterrupt
      with Some have "write_calls (snd (send_pads dev (pid # pads) a p c w)) =
                 write_calls w @ ?f pid # map ?f (take 0 pads)"
        unfolding send_pads_step [OF assms r] by simp
      then show ?thesis by blast
    next
      case (SystemExit k)
      with Some have "write_calls (snd (send_pads dev (pid # pads) a p c w)) =
                 write_calls w @ ?f pid # map ?f (take 0 pads)"
        unfolding send_pads_step [OF assms r] by simp
      then show ?thesis by blast
    qed
  qed
  then show ?thesis
    unfolding send_haptic_pulse_def sp by auto
qed

lemma in_u16_mod: "in_u16 v \<Longrightarrow> v mod 2 ^ 16 = v"
  by (simp add: in_u16_def)

lemma first_write_fails_Exc: "\<forall>k y. first_write_fails k = Some y \<longrightarrow> (\<exists>x. y = Exc x)"
  by (simp add: first_write_fails_def)

lemma no_answer_Exc: "\<forall>k y. no_answer k = Some y \<longrightarrow> (\<exists>x. y = Exc x)"
  by (simp add: no_answer_def)

lemma example_in_u16: "in_u16 0x8000" "in_u16 0x0032" "in_u16 4000" "in_u16 0x0050" "in_u16 4"
  by (simp_all add: in_u16_def)

section \<open>The loop and main: auxiliary facts\<close>

lemma send_pads_frame:
  "sleep_calls (snd (send_pads dev pads a p c w)) = sleep_calls w \<and>
   opened (snd (send_pads dev pads a p c w)) = opened w \<and>
   close_calls (snd (send_pads dev pads a p c w)) = close_calls w"
proof (induction pads arbitrary: w)
  case Nil
  then show ?case by simp
next
  case (Cons pid pads)
  show ?case
    by (simp add: send_pads.simps(2) Cons.IH device_write_def print_def Let_def
        split: sum.splits option.splits py_exc.splits)
qed

lemma both_in_range: "in_u16 0x8000" "in_u16 0x0032" "in_u16 4000"
  by (simp_all add: in_u16_def)

lemma pulse_both:
  assumes wr: "\<forall>k y. dev k = Some y \<longrightarrow> (\<exists>x. y = Exc x)"
  shows "send_haptic_pulse dev ''both'' 0x8000 0x0032 4000 w =
     (Inr (), w\<lparr>write_calls := write_calls w @ pulse_reports,
               stdout := stdout w @ error_line dev (length (write_calls w)) @
                           error_line dev (Suc (length (write_calls w)))\<rparr>)"
proof -
  have up: "[length (write_calls w)..<length (write_calls w) + length (select_pads ''both'')] =
      [length (write_calls w), Suc (length (write_calls w))]"
    by (simp add: select_pads_def upt_rec)
  show ?thesis
    unfolding send_haptic_pulse_all [OF both_in_range wr] up
    by (simp add: select_pads_def pulse_reports_def)
qed


lemma upt_two_more: "[k ..< k + 2 * Suc n] = k # Suc k # [k + 2 ..< k + 2 + 2 * n]"
  by (simp add: upt_conv_Cons)

lemma main_loop_iterate:
  assumes wr: "\<forall>k y. write_result e k = Some y \<longrightarrow> (\<exists>x. y = Exc x)"
    and sl: "\<forall>k<n. sleep_result e (length (sleep_calls w) + k) = None"
    and si: "\<forall>k<n. \<not> sigint_at_iteration e (pc + k)"
  shows "main_loop e pc w =
     main_loop e (pc + n)
       (w\<lparr>write_calls := write_calls w @ concat (replicate n pulse_reports),
          sleep_calls := sleep_calls w @ replicate n 2,
          stdout := stdout w @ concat (map (error_line (write_result e))
                      [length (write_calls w) ..< length (write_calls w) + 2 * n])\<rparr>)"
  using sl si
proof (induction n arbitrary: pc w)
  case 0
  show ?case by simp
next
  case (Suc n)
  let ?k = "length (write_calls w)"
  let ?w2 = "w\<lparr>write_calls := write_calls w @ pulse_reports,
               stdout := stdout w @ error_line (write_result e) ?k @
                           error_line (write_result e) (Suc ?k),
               sleep_calls := sleep_calls w @ [2]\<rparr>"
  have s0: "sleep_result e (length (sleep_calls w)) = None"
    using Suc.prems(1) [rule_format, of 0] by simp
  have i0: "\<not> sigint_at_iteration e pc"
    using Suc.prems(2) [rule_format, of 0] by simp
  have step: "main_loop e pc w = main_loop e (pc + 1) ?w2"
    by (subst main_loop.simps) (simp add: i0 pulse_both [OF wr] time_sleep_def s0)
  have sl': "\<forall>k<n. sleep_result e (length (sleep_calls ?w2) + k) = None"
    using Suc.prems(1) by (auto dest: spec [of _ "Suc _"])
  have si': "\<forall>k<n. \<not> sigint_at_iteration e (pc + 1 + k)"
    using Suc.prems(2) by (auto dest: spec [of _ "Suc _"])
  have len: "length pulse_reports = 2" by (simp add: pulse_reports_def)
  show ?case
    unfolding step Suc.IH [OF sl' si'] upt_two_more
    by (simp add: len add.commute add.left_commute)
qed


lemma main_loop_sigint:
  assumes wr: "\<forall>k y. write_result e k = Some y \<longrightarrow> (\<exists>x. y = Exc x)"
    and sl: "\<forall>k<n. sleep_result e (length (sleep_calls w) + k) = None"
    and si: "\<forall>k<n. \<not> sigint_at_iteration e (pc + k)"
    and sn: "sigint_at_iteration e (pc + n)"
  shows "main_loop e pc w =
     Some (KeyboardInterrupt,
       w\<lparr>write_calls := write_calls w @ concat (replicate n pulse_reports),
          sleep_calls := sleep_calls w @ replicate n 2,
          stdout := stdout w @ concat (map (error_line (write_result e))
                      [length (write_calls w) ..< length (write_calls w) + 2 * n])\<rparr>)"
  unfolding main_loop_iterate [OF wr sl si]
  by (subst main_loop.simps) (simp add: sn)

lemma concat_replicate_snoc: "concat (replicate n xs) @ xs = xs @ concat (replicate n xs)"
  by (induction n) simp_all

lemma main_loop_sleep_raises:
  assumes wr: "\<forall>k y. write_result e k = Some y \<longrightarrow> (\<exists>x. y = Exc x)"
    and sl: "\<forall>k<n. sleep_result e (length (sleep_calls w) + k) = None"
    and si: "\<forall>k<Suc n. \<not> sigint_at_iteration e (pc + k)"
    and sn: "sleep_result e (length (sleep_calls w) + n) = Some x"
  shows "\<exists>w'. main_loop e pc w = Some (x, w') \<and>
           write_calls w' = write_calls w @ concat (replicate (Suc n) pulse_reports) \<and>
           sleep_calls w' = sleep_calls w @ replicate (Suc n) 2 \<and>
           opened w' = opened w \<and> close_calls w' = close_calls w"
proof -
  have si': "\<forall>k<n. \<not> sigint_at_iteration e (pc + k)" using si by simp
  have sN: "\<not> sigint_at_iteration e (pc + n)" using si by simp
  show ?thesis
    unfolding main_loop_iterate [OF wr sl si']
    by (subst main_loop.simps)
      (simp add: sN pulse_both [OF wr] time_sleep_def sn replicate_append_same
        concat_replicate_snoc)
qed

lemma send_haptic_pulse_frame:
  "sleep_calls (snd (send_haptic_pulse dev pad a p c w)) = sleep_calls w"
  "opened (snd (send_haptic_pulse dev pad a p c w)) = opened w"
  "close_calls (snd (send_haptic_pulse dev pad a p c w)) = close_calls w"
  by (simp_all add: send_haptic_pulse_def send_pads_frame)

lemma time_sleep_frame:
  "write_calls (snd (time_sleep e secs w)) = write_calls w"
  "opened (snd (time_sleep e secs w)) = opened w"
  "close_calls (snd (time_sleep e secs w)) = close_calls w"
  by (simp_all add: time_sleep_def Let_def split: option.splits)

lemma main_loop_exit_frame:
  assumes "main_loop e pc w = Some r"
  shows "close_calls (snd r) = close_calls w \<and> opened (snd r) = opened w"
proof (rule main_loop.raw_induct
    [where P = "\<lambda>e pc w r. close_calls (snd r) = close_calls w \<and> opened (snd r) = opened w",
      OF _ assms])
  fix f e pc w r
  assume IH: "\<And>e pc w r. f e pc w = Some r \<Longrightarrow>
                 close_calls (snd r) = close_calls w \<and> opened (snd r) = opened w"
    and eq: "(if sigint_at_iteration e pc then Some (KeyboardInterrupt, w)
      else case send_haptic_pulse (write_result e) ''both'' 0x8000 0x0032 4000 w of
           (Inl x, w1) \<Rightarrow> Some (x, w1)
           | (Inr u, w1) \<Rightarrow>
               (case time_sleep e 2 w1 of (Inl x, w2) \<Rightarrow> Some (x, w2)
               | (Inr u', w2) \<Rightarrow> f e (pc + 1) w2)) = Some r"
  show "close_calls (snd r) = close_calls w \<and> opened (snd r) = opened w"
  proof (cases "sigint_at_iteration e pc")
    case True
    with eq show ?thesis by auto
  next
    case False
    obtain a w1 where s: "send_haptic_pulse (write_result e) ''both'' 0x8000 0x0032 4000 w = (a, w1)"
      by (cases "send_haptic_pulse (write_result e) ''both'' 0x8000 0x0032 4000 w")
    have f1: "close_calls w1 = close_calls w" "opened w1 = opened w"
      using send_haptic_pulse_frame(2,3) [of "write_result e" "''both''" "0x8000" "0x0032" 4000 w]
      unfolding s by simp_all
    show ?thesis
    proof (cases a)
      case (Inl x)
      with eq False s f1 show ?thesis by auto
    next
      case (Inr u)
      obtain b w2 where t: "time_sleep e 2 w1 = (b, w2)" by (cases "time_sleep e 2 w1")
      have f2: "close_calls w2 = close_calls w" "opened w2 = opened w"
        using time_sleep_frame(2,3) [of e 2 w1] f1 unfolding t by simp_all
      show ?thesis
      proof (cases b)
        case (Inl x)
        with eq False s Inr t f2 show ?thesis by auto
      next
        case (Inr u')
        from eq False s \<open>a = Inr u\<close> t Inr have "f e (pc + 1) w2 = Some r" by simp
        from IH [OF this] f2 show ?thesis by simp
      qed
    qed
  qed
qed




lemma device_open_raises:
  "isl (fst (device_open e vid pid w)) \<Longrightarrow>
     device_open e vid pid v = (Inl (Exc (OSError ''open failed'')), v)"
  by (auto simp: device_open_def split: list.splits if_splits)

lemma device_open_returns:
  "\<not> isl (fst (device_open e vid pid w)) \<Longrightarrow>
     \<exists>pth. device_open e vid pid v = (Inr (), v\<lparr>opened := Some pth\<rparr>)"
  by (auto simp: device_open_def split: list.splits if_splits)


lemma main_before_try:
  assumes "hid_installed e"
    and "sigint_at e AtStart \<or> sigint_at e AtImport \<or> sigint_at e AfterCreate"
  shows "\<exists>w'. main e w = Some (Inl KeyboardInterrupt, w') \<and>
           write_calls w' = write_calls w \<and> close_calls w' = close_calls w"
  using assms by (auto simp: main_def print_def Let_def)

lemma main_entered:
  assumes "enters_try e"
  shows "\<exists>w1. write_calls w1 = write_calls w \<and> sleep_calls w1 = sleep_calls w \<and>
           close_calls w1 = close_calls w \<and>
           main e w = (case try_body e w1 of
                         None \<Rightarrow> None
                       | Some (x, w2) \<Rightarrow> Some (finally_close e (handlers e x w2)))"
proof -
  let ?w1 = "(print (replicate 40 CHR ''-'')
                (print ''Press Ctrl+C to exit''
                  (print ''Steam Deck Haptic Feedback Test'' w)))\<lparr>opened := None\<rparr>"
  have "main e w = (case try_body e ?w1 of
                         None \<Rightarrow> None
                       | Some (x, w2) \<Rightarrow> Some (finally_close e (handlers e x w2)))"
    using assms by (simp add: main_def enters_try_def Let_def)
  moreover have "write_calls ?w1 = write_calls w \<and> sleep_calls ?w1 = sleep_calls w \<and>
           close_calls ?w1 = close_calls w"
    by (simp add: print_def)
  ultimately show ?thesis by blast
qed

lemma try_body_interrupted:
  "sigint_at e DuringOpen \<Longrightarrow> try_body e w = Some (KeyboardInterrupt, w)"
  by (simp add: try_body_def)

lemma try_body_open_fails:
  assumes "\<not> sigint_at e DuringOpen"
    and "isl (fst (device_open e VALVE_VENDOR_ID STEAM_DECK_PRODUCT_ID v))"
  shows "try_body e w = Some (Exc (OSError ''open failed''), w)"
  using assms(1) by (simp add: try_body_def device_open_raises [OF assms(2)])

lemma try_body_opened:
  assumes "\<not> sigint_at e DuringOpen"
    and "\<not> isl (fst (device_open e VALVE_VENDOR_ID STEAM_DECK_PRODUCT_ID v))"
  shows "\<exists>wl. write_calls wl = write_calls w \<and> sleep_calls wl = sleep_calls w \<and>
           close_calls wl = close_calls w \<and> try_body e w = main_loop e 0 wl"
proof -
  from device_open_returns [OF assms(2), of w] obtain pth where
    o: "device_open e VALVE_VENDOR_ID STEAM_DECK_PRODUCT_ID w = (Inr (), w\<lparr>opened := Some pth\<rparr>)"
    by blast
  let ?wl = "print [] (print ''Connected to Steam Deck controller'' (w\<lparr>opened := Some pth\<rparr>))"
  have "try_body e w = main_loop e 0 ?wl"
    using assms(1) by (simp add: try_body_def o)
  moreover have "write_calls ?wl = write_calls w \<and> sleep_calls ?wl = sleep_calls w \<and>
           close_calls ?wl = close_calls w"
    by (simp add: print_def)
  ultimately show ?thesis by blast
qed

lemma try_body_exit_frame:
  assumes "try_body e w = Some (x, w2)"
  shows "close_calls w2 = close_calls w"
proof (cases "sigint_at e DuringOpen")
  case True
  with assms show ?thesis by (simp add: try_body_interrupted)
next
  case False
  show ?thesis
  proof (cases "isl (fst (device_open e VALVE_VENDOR_ID STEAM_DECK_PRODUCT_ID w))")
    case True
    from try_body_open_fails [OF False True, of w] assms show ?thesis by simp
  next
    case no: False
    from try_body_opened [OF False no, of w] obtain wl where
      wl: "close_calls wl = close_calls w" and t: "try_body e w = main_loop e 0 wl" by blast
    from assms t have "main_loop e 0 wl = Some (x, w2)" by simp
    from main_loop_exit_frame [OF this] wl show ?thesis by simp
  qed
qed

lemma handlers_frame:
  "close_calls (snd (handlers e x w)) = close_calls w"
  "write_calls (snd (handlers e x w)) = write_calls w"
  "sleep_calls (snd (handlers e x w)) = sleep_calls w"
  by (cases "(e, x, w)" rule: handlers.cases; simp add: print_def)+

lemma finally_close_frame:
  "write_calls (snd (finally_close e r)) = write_calls (snd r)"
  "sleep_calls (snd (finally_close e r)) = sleep_calls (snd r)"
  by (simp_all add: finally_close_def device_close_def)

lemma finally_close_closes:
  assumes "\<not> sigint_at e InFinally"
  shows "fst (finally_close e r) = fst r"
    "close_calls (snd (finally_close e r)) = close_calls (snd r) + 1"
    "opened (snd (finally_close e r)) = None"
  using assms by (simp_all add: finally_close_def device_close_def)

lemma finally_close_nonzero:
  "exit_status (fst r) \<noteq> 0 \<Longrightarrow> exit_status (fst (finally_close e r)) \<noteq> 0"
  by (simp add: finally_close_def)

lemma handlers_OSError_nonzero:
  "exit_status (fst (handlers e (Exc (OSError m)) w)) \<noteq> 0"
  by simp

lemma main_open_fails:
  assumes et: "enters_try e"
    and no: "\<not> sigint_at e DuringOpen"
    and op: "isl (fst (device_open e VALVE_VENDOR_ID STEAM_DECK_PRODUCT_ID w))"
  shows "\<exists>r w'. main e w = Some (r, w') \<and> exit_status r \<noteq> 0 \<and>
           write_calls w' = write_calls w \<and> sleep_calls w' = sleep_calls w \<and>
           (\<not> sigint_at e InFinally \<longrightarrow> close_calls w' = close_calls w + 1 \<and> opened w' = None)"
proof -
  from main_entered [OF et, of w] obtain w1 where
    w1: "write_calls w1 = write_calls w" "sleep_calls w1 = sleep_calls w"
      "close_calls w1 = close_calls w"
    and m: "main e w = (case try_body e w1 of
                         None \<Rightarrow> None
                       | Some (x, w2) \<Rightarrow> Some (finally_close e (handlers e x w2)))"
    by blast
  let ?h = "handlers e (Exc (OSError ''open failed'')) w1"
  have m': "main e w = Some (fst (finally_close e ?h), snd (finally_close e ?h))"
    unfolding m try_body_open_fails [OF no op] by simp
  have "exit_status (fst (finally_close e ?h)) \<noteq> 0"
    by (rule finally_close_nonzero [OF handlers_OSError_nonzero])
  moreover have "write_calls (snd (finally_close e ?h)) = write_calls w"
    "sleep_calls (snd (finally_close e ?h)) = sleep_calls w"
    by (simp_all only: finally_close_frame handlers_frame w1)
  moreover have "\<not> sigint_at e InFinally \<longrightarrow>
      close_calls (snd (finally_close e ?h)) = close_calls w + 1 \<and>
      opened (snd (finally_close e ?h)) = None"
    using handlers_frame(1) [of e "Exc (OSError ''open failed'')" w1] w1(3)
    by (simp add: finally_close_def device_close_def)
  ultimately show ?thesis using m' by blast
qed

lemma main_via_loop:
  assumes et: "enters_try e"
    and no: "\<not> sigint_at e DuringOpen"
    and op: "\<not> isl (fst (device_open e VALVE_VENDOR_ID STEAM_DECK_PRODUCT_ID w))"
  shows "\<exists>wl. write_calls wl = write_calls w \<and> sleep_calls wl = sleep_calls w \<and>
           close_calls wl = close_calls w \<and>
           main e w = (case main_loop e 0 wl of
                         None \<Rightarrow> None
                       | Some (x, w2) \<Rightarrow> Some (finally_close e (handlers e x w2)))"
proof -
  from main_entered [OF et, of w] obtain w1 where
    w1: "write_calls w1 = write_calls w" "sleep_calls w1 = sleep_calls w"
      "close_calls w1 = close_calls w"
    and m: "main e w = (case try_body e w1 of
                         None \<Rightarrow> None
                       | Some (x, w2) \<Rightarrow> Some (finally_close e (handlers e x w2)))"
    by blast
  from try_body_opened [OF no op, of w1] obtain wl where
    wl: "write_calls wl = write_calls w1" "sleep_calls wl = sleep_calls w1"
      "close_calls wl = close_calls w1"
    and t: "try_body e w1 = main_loop e 0 wl"
    by blast
  show ?thesis
    using m t wl w1 by auto
qed

lemma main_after_interrupt:
  assumes "\<not> sigint_at e InFinally"
  shows "\<exists>r w'. finally_close e (handlers e KeyboardInterrupt w2) = (r, w') \<and>
           (\<not> sigint_at e InInterruptHandler \<longrightarrow> r = Inr ()) \<and>
           write_calls w' = write_calls w2 \<and> sleep_calls w' = sleep_calls w2 \<and>
           close_calls w' = close_calls w2 + 1 \<and> opened w' = None"
  using assms by (simp add: finally_close_def device_close_def print_def)


lemma main_sigint:
  assumes et: "enters_try e"
    and no: "\<not> sigint_at e DuringOpen"
    and fin: "\<not> sigint_at e InFinally"
    and op: "\<not> isl (fst (device_open e VALVE_VENDOR_ID STEAM_DECK_PRODUCT_ID w))"
    and wr: "\<forall>k y. write_result e k = Some y \<longrightarrow> (\<exists>x. y = Exc x)"
    and sl: "\<forall>k<n. sleep_result e (length (sleep_calls w) + k) = None"
    and si: "\<forall>k<n. \<not> sigint_at_iteration e k"
    and sn: "sigint_at_iteration e n"
  shows "\<exists>r w'. main e w = Some (r, w') \<and>
           (\<not> sigint_at e InInterruptHandler \<longrightarrow> r = Inr ()) \<and>
           write_calls w' = write_calls w @ concat (replicate n pulse_reports) \<and>
           sleep_calls w' = sleep_calls w @ replicate n 2 \<and>
           close_calls w' = close_calls w + 1 \<and> opened w' = None"
proof -
  from main_via_loop [OF et no op] obtain wl where
    wl: "write_calls wl = write_calls w" "sleep_calls wl = sleep_calls w"
      "close_calls wl = close_calls w"
    and m: "main e w = (case main_loop e 0 wl of
                         None \<Rightarrow> None
                       | Some (x, w2) \<Rightarrow> Some (finally_close e (handlers e x w2)))"
    by blast
  have sl': "\<forall>k<n. sleep_result e (length (sleep_calls wl) + k) = None"
    using sl wl(2) by simp
  have si': "\<forall>k<n. \<not> sigint_at_iteration e (0 + k)" using si by simp
  have sn': "sigint_at_iteration e (0 + n)" using sn by simp
  let ?w2 = "wl\<lparr>write_calls := write_calls wl @ concat (replicate n pulse_reports),
          sleep_calls := sleep_calls wl @ replicate n 2,
          stdout := stdout wl @ concat (map (error_line (write_result e))
                      [length (write_calls wl) ..< length (write_calls wl) + 2 * n])\<rparr>"
  have m': "main e w = Some (finally_close e (handlers e KeyboardInterrupt ?w2))"
    unfolding m main_loop_sigint [OF wr sl' si' sn'] by simp
  from main_after_interrupt [OF fin, of ?w2] show ?thesis
    unfolding m' using wl by auto
qed

lemma main_sleep_interrupt:
  assumes et: "enters_try e"
    and no: "\<not> sigint_at e DuringOpen"
    and fin: "\<not> sigint_at e InFinally"
    and op: "\<not> isl (fst (device_open e VALVE_VENDOR_ID STEAM_DECK_PRODUCT_ID w))"
    and wr: "\<forall>k y. write_result e k = Some y \<longrightarrow> (\<exists>x. y = Exc x)"
    and sl: "\<forall>k<n. sleep_result e (length (sleep_calls w) + k) = None"
    and si: "\<forall>k<Suc n. \<not> sigint_at_iteration e k"
    and sn: "sleep_result e (length (sleep_calls w) + n) = Some KeyboardInterrupt"
  shows "\<exists>r w'. main e w = Some (r, w') \<and>
           (\<not> sigint_at e InInterruptHandler \<longrightarrow> r = Inr ()) \<and>
           write_calls w' = write_calls w @ concat (replicate (Suc n) pulse_reports) \<and>
           sleep_calls w' = sleep_calls w @ replicate (Suc n) 2 \<and>
           close_calls w' = close_calls w + 1 \<and> opened w' = None"
proof -
  from main_via_loop [OF et no op] obtain wl where
    wl: "write_calls wl = write_calls w" "sleep_calls wl = sleep_calls w"
      "close_calls wl = close_calls w"
    and m: "main e w = (case main_loop e 0 wl of
                         None \<Rightarrow> None
                       | Some (x, w2) \<Rightarrow> Some (finally_close e (handlers e x w2)))"
    by blast
  have sl': "\<forall>k<n. sleep_result e (length (sleep_calls wl) + k) = None"
    using sl wl(2) by simp
  have si': "\<forall>k<Suc n. \<not> sigint_at_iteration e (0 + k)" using si by simp
  have sn': "sleep_result e (length (sleep_calls wl) + n) = Some KeyboardInterrupt"
    using sn wl(2) by simp
  from main_loop_sleep_raises [OF wr sl' si' sn'] obtain w2 where
    l: "main_loop e 0 wl = Some (KeyboardInterrupt, w2)"
    and w2: "write_calls w2 = write_calls wl @ concat (replicate (Suc n) pulse_reports)"
      "sleep_calls w2 = sleep_calls wl @ replicate (Suc n) 2"
      "close_calls w2 = close_calls wl"
    by blast
  have m': "main e w = Some (finally_close e (handlers e KeyboardInterrupt w2))"
    unfolding m l by simp
  from main_after_interrupt [OF fin, of w2] show ?thesis
    unfolding m' using wl w2 by auto
qed

lemma main_exit_closes:
  assumes et: "enters_try e"
    and fin: "\<not> sigint_at e InFinally"
    and m: "main e w = Some (r, w')"
  shows "close_calls w' = close_calls w + 1 \<and> opened w' = None"
proof -
  from main_entered [OF et, of w] obtain w1 where
    w1: "close_calls w1 = close_calls w"
    and me: "main e w = (case try_body e w1 of
                         None \<Rightarrow> None
                       | Some (x, w2) \<Rightarrow> Some (finally_close e (handlers e x w2)))"
    by blast
  from m me obtain x w2 where
    t: "try_body e w1 = Some (x, w2)" and r: "(r, w') = finally_close e (handlers e x w2)"
    by (auto split: option.splits)
  from try_body_exit_frame [OF t] have "close_calls w2 = close_calls w1" .
  with w1 have c: "close_calls (snd (handlers e x w2)) = close_calls w"
    by (simp add: handlers_frame)
  from r have "w' = snd (finally_close e (handlers e x w2))"
    by (metis snd_conv)
  with finally_close_closes(2,3) [OF fin, of "handlers e x w2"] c show ?thesis by simp
qed


lemma main_finally_interrupted:
  assumes et: "enters_try e"
    and fin: "sigint_at e InFinally"
    and m: "main e w = Some (r, w')"
  shows "r = Inl KeyboardInterrupt \<and> close_calls w' = close_calls w"
proof -
  from main_entered [OF et, of w] obtain w1 where
    w1: "close_calls w1 = close_calls w"
    and me: "main e w = (case try_body e w1 of
                         None \<Rightarrow> None
                       | Some (x, w2) \<Rightarrow> Some (finally_close e (handlers e x w2)))"
    by blast
  from m me obtain x w2 where
    t: "try_body e w1 = Some (x, w2)" and r: "(r, w') = finally_close e (handlers e x w2)"
    by (auto split: option.splits)
  from try_body_exit_frame [OF t] have "close_calls w2 = close_calls w1" .
  with w1 have c: "close_calls (snd (handlers e x w2)) = close_calls w"
    by (simp add: handlers_frame)
  from r fin c show ?thesis by (simp add: finally_close_def)
qed

section \<open>The example environments\<close>

lemma example_env_fields:
  "hid_installed example_env"
  "write_result example_env = first_write_fails"
  "\<not> isl (fst (device_open example_env VALVE_VENDOR_ID STEAM_DECK_PRODUCT_ID w))"
  "\<forall>k<3. sleep_result example_env (length (sleep_calls w) + k) = None"
  "\<forall>k<3. \<not> sigint_at_iteration example_env k"
  "sigint_at_iteration example_env 3"
  by (simp_all add: example_env_def device_open_def hid_enumerate_def deck_interfaces_def
      VALVE_VENDOR_ID_def STEAM_DECK_PRODUCT_ID_def)

lemma example_env_writes: "\<forall>k y. write_result example_env k = Some y \<longrightarrow> (\<exists>x. y = Exc x)"
  by (simp add: example_env_def first_write_fails_def)


lemma env_without_device_fields:
  "hid_installed env_without_device"
  "isl (fst (device_open env_without_device VALVE_VENDOR_ID STEAM_DECK_PRODUCT_ID w))"
  by (simp_all add: env_without_device_def example_env_def device_open_def hid_enumerate_def)

lemma env_sleep_interrupted_fields:
  "hid_installed env_sleep_interrupted"
  "\<not> isl (fst (device_open env_sleep_interrupted VALVE_VENDOR_ID STEAM_DECK_PRODUCT_ID w))"
  "\<forall>k y. write_result env_sleep_interrupted k = Some y \<longrightarrow> (\<exists>x. y = Exc x)"
  "\<forall>k<2. sleep_result env_sleep_interrupted (length (sleep_calls initial_world) + k) = None"
  "\<forall>k<Suc 2. \<not> sigint_at_iteration env_sleep_interrupted k"
  "sleep_result env_sleep_interrupted (length (sleep_calls initial_world) + 2) = Some KeyboardInterrupt"
  by (simp_all add: env_sleep_interrupted_def example_env_def device_open_def hid_enumerate_def
      deck_interfaces_def VALVE_VENDOR_ID_def STEAM_DECK_PRODUCT_ID_def first_write_fails_def
      initial_world_def)

lemma example_env_interrupts:
  "enters_try example_env" "\<not> sigint_at example_env p"
  by (simp_all add: enters_try_def example_env_def)

lemma env_without_device_interrupts:
  "enters_try env_without_device" "\<not> sigint_at env_without_device p"
  by (simp_all add: enters_try_def env_without_device_def example_env_def)

lemma env_sleep_interrupted_interrupts:
  "enters_try env_sleep_interrupted" "\<not> sigint_at env_sleep_interrupted p"
  by (simp_all add: enters_try_def env_sleep_interrupted_def example_env_def)


lemma env_sigint_after_create_fields:
  "hid_installed env_sigint_after_create" "\<not> sigint_at env_sigint_after_create AtStart"
  "\<not> sigint_at env_sigint_after_create AtImport" "sigint_at env_sigint_after_create AfterCreate"
  by (simp_all add: env_sigint_after_create_def example_env_def)

section \<open>The report encoder\<close>

text \<open>
  C1. With amplitude, period and count in the 16-bit range, every buffer that
  \<open>send_haptic_pulse\<close> hands to the device, for any pad selector and whatever the
  device answers, is 64 bytes long: byte 0 is 0x8f, byte 1 is 0x07, byte 2 is a pad id
  of the selector, bytes 3-4, 5-6 and 7-8 are amplitude, period and count with the low
  byte first, and bytes 9 to 63 are zero. For pad='left', amplitude=0x8000,
  period=0x0032, count=4000 the one buffer written is 8f 07 01 00 80 32 00 a0 0f and 55
  zero bytes.
\<close>

theorem C1_report_layout:
  "(in_u16 amplitude \<and> in_u16 period \<and> in_u16 count \<longrightarrow>
     (\<exists>ms. write_calls (snd (send_haptic_pulse dev pad amplitude period count w)) =
             write_calls w @ ms \<and>
         (\<forall>m\<in>set ms.
            length m = 64 \<and> m ! 0 = 0x8f \<and> m ! 1 = 0x07 \<and>
            (\<exists>pad_id\<in>set (select_pads pad). m ! 2 = word_of_int pad_id) \<and>
            m ! 3 = word_of_int (amplitude mod 256) \<and> m ! 4 = word_of_int (amplitude div 256) \<and>
            m ! 5 = word_of_int (period mod 256) \<and> m ! 6 = word_of_int (period div 256) \<and>
            m ! 7 = word_of_int (count mod 256) \<and> m ! 8 = word_of_int (count div 256) \<and>
            (\<forall>i. 9 \<le> i \<and> i < 64 \<longrightarrow> m ! i = 0)))) \<and>
   write_calls (snd (send_haptic_pulse dev ''left'' 0x8000 0x0032 4000 w)) =
     write_calls w @
       [[0x8f, 0x07, 0x01, 0x00, 0x80, 0x32, 0x00, 0xa0, 0x0f] @ replicate 55 0]"
proof (intro conjI impI)
  assume r: "in_u16 amplitude \<and> in_u16 period \<and> in_u16 count"
  then have ra: "in_u16 amplitude" and rp: "in_u16 period" and rc: "in_u16 count" by simp_all
  let ?f = "\<lambda>pid. spec_wire_format pid amplitude period count"
  from send_pads_prefix [OF ra rp rc select_pads_range, of pad dev w]
  obtain n where
    n: "write_calls (snd (send_pads dev (select_pads pad) amplitude period count w)) =
          write_calls w @ map ?f (take n (select_pads pad))"
    by blast
  have each: "length m = 64 \<and> m ! 0 = 0x8f \<and> m ! 1 = 0x07 \<and>
            (\<exists>pad_id\<in>set (select_pads pad). m ! 2 = word_of_int pad_id) \<and>
            m ! 3 = word_of_int (amplitude mod 256) \<and> m ! 4 = word_of_int (amplitude div 256) \<and>
            m ! 5 = word_of_int (period mod 256) \<and> m ! 6 = word_of_int (period div 256) \<and>
            m ! 7 = word_of_int (count mod 256) \<and> m ! 8 = word_of_int (count div 256) \<and>
            (\<forall>i. 9 \<le> i \<and> i < 64 \<longrightarrow> m ! i = 0)"
    if m: "m \<in> set (map ?f (take n (select_pads pad)))" for m
  proof -
    from m obtain pid where pid: "pid \<in> set (take n (select_pads pad))" "m = ?f pid"
      by auto
    from pid(1) have mem: "pid \<in> set (select_pads pad)" by (rule in_set_takeD)
    have "\<exists>pad_id\<in>set (select_pads pad). m ! 2 = word_of_int pad_id"
      using mem pid(2) by (auto simp: spec_wire_format_bytes)
    then show ?thesis
      unfolding pid(2) using spec_wire_format_bytes [of pid amplitude period count]
      by (simp add: spec_wire_format_padding)
  qed
  show "\<exists>ms. write_calls (snd (send_haptic_pulse dev pad amplitude period count w)) =
             write_calls w @ ms \<and>
         (\<forall>m\<in>set ms.
            length m = 64 \<and> m ! 0 = 0x8f \<and> m ! 1 = 0x07 \<and>
            (\<exists>pad_id\<in>set (select_pads pad). m ! 2 = word_of_int pad_id) \<and>
            m ! 3 = word_of_int (amplitude mod 256) \<and> m ! 4 = word_of_int (amplitude div 256) \<and>
            m ! 5 = word_of_int (period mod 256) \<and> m ! 6 = word_of_int (period div 256) \<and>
            m ! 7 = word_of_int (count mod 256) \<and> m ! 8 = word_of_int (count div 256) \<and>
            (\<forall>i. 9 \<le> i \<and> i < 64 \<longrightarrow> m ! i = 0))"
    unfolding send_haptic_pulse_def using n each by blast
next
  have r: "in_u16 0x8000" "in_u16 0x0032" "in_u16 4000" "(0::int) \<le> 1" "(1::int) \<le> 255"
    by (simp_all add: in_u16_def)
  show "write_calls (snd (send_haptic_pulse dev ''left'' 0x8000 0x0032 4000 w)) =
     write_calls w @
       [[0x8f, 0x07, 0x01, 0x00, 0x80, 0x32, 0x00, 0xa0, 0x0f] @ replicate 55 0]"
    by (simp add: send_haptic_pulse_def select_pads_def send_pads_step [OF r]
        spec_wire_format_def print_def split: option.splits py_exc.splits)
qed

theorem C1_report_layout_witness:
  "(in_u16 0x8000 \<and> in_u16 0x0032 \<and> in_u16 4000) \<and>
   (\<exists>ms. write_calls (snd (send_haptic_pulse first_write_fails ''both'' 0x8000 0x0032 4000
                initial_world)) = write_calls initial_world @ ms \<and>
         (\<forall>m\<in>set ms.
            length m = 64 \<and> m ! 0 = 0x8f \<and> m ! 1 = 0x07 \<and>
            (\<exists>pad_id\<in>set (select_pads ''both''). m ! 2 = word_of_int pad_id) \<and>
            m ! 3 = word_of_int (0x8000 mod 256) \<and> m ! 4 = word_of_int (0x8000 div 256) \<and>
            m ! 5 = word_of_int (0x0032 mod 256) \<and> m ! 6 = word_of_int (0x0032 div 256) \<and>
            m ! 7 = word_of_int (4000 mod 256) \<and> m ! 8 = word_of_int (4000 div 256) \<and>
            (\<forall>i. 9 \<le> i \<and> i < 64 \<longrightarrow> m ! i = 0)))"
proof -
  have r: "in_u16 0x8000 \<and> in_u16 0x0032 \<and> in_u16 4000"
    by (simp add: in_u16_def)
  note c = C1_report_layout [of "0x8000" "0x0032" 4000 first_write_fails "''both''" initial_world,
      THEN conjunct1, THEN mp, OF r]
  show ?thesis by (rule conjI [OF r c])
qed

text \<open>
  C2. With in-range parameters and a device whose writes return or fail with an
  \<open>Exception\<close>, \<open>send_haptic_pulse\<close> makes exactly one write call for 'left' and for
  'right', with the 64-byte report of that side, and exactly two for 'both', one per
  side in sequence: first the 64-byte report of the right pad (pad byte 0x00), then the
  64-byte report of the left pad (pad byte 0x01).
\<close>

theorem C2_report_count:
  assumes "in_u16 amplitude" "in_u16 period" "in_u16 count"
    and "\<forall>k y. dev k = Some y \<longrightarrow> (\<exists>x. y = Exc x)"
  shows "(pad = ''left'' \<or> pad = ''right'' \<longrightarrow>
           (\<exists>m. write_calls (snd (send_haptic_pulse dev pad amplitude period count w)) =
                  write_calls w @ [m] \<and> length m = 64 \<and>
                m = spec_wire_format (if pad = ''left'' then 1 else 0) amplitude period count \<and>
                m ! 2 = (if pad = ''left'' then 0x01 else 0x00))) \<and>
         (pad = ''both'' \<longrightarrow>
           (\<exists>m1 m2. write_calls (snd (send_haptic_pulse dev pad amplitude period count w)) =
                  write_calls w @ [m1, m2] \<and> length m1 = 64 \<and> length m2 = 64 \<and>
                m1 = spec_wire_format 0 amplitude period count \<and>
                m2 = spec_wire_format 1 amplitude period count \<and>
                m1 ! 2 = 0x00 \<and> m2 ! 2 = 0x01))"
  by (auto simp: send_haptic_pulse_all [OF assms] select_pads_def spec_wire_format_bytes)

theorem C2_report_count_witness:
  "(in_u16 0x8000 \<and> in_u16 0x0032 \<and> in_u16 4000) \<and>
   (\<exists>m. write_calls (snd (send_haptic_pulse first_write_fails ''left'' 0x8000 0x0032 4000
            initial_world)) = write_calls initial_world @ [m] \<and> length m = 64 \<and>
          m = spec_wire_format (if ''left'' = ''left'' then 1 else 0) 0x8000 0x0032 4000 \<and>
          m ! 2 = (if ''left'' = ''left'' then 0x01 else 0x00)) \<and>
   (\<exists>m1 m2. write_calls (snd (send_haptic_pulse first_write_fails ''both'' 0x8000 0x0032 4000
            initial_world)) = write_calls initial_world @ [m1, m2] \<and>
          length m1 = 64 \<and> length m2 = 64 \<and>
          m1 = spec_wire_format 0 0x8000 0x0032 4000 \<and>
          m2 = spec_wire_format 1 0x8000 0x0032 4000 \<and>
          m1 ! 2 = 0x00 \<and> m2 ! 2 = 0x01)"
proof -
  note c = C2_report_count [OF example_in_u16(1) example_in_u16(2) example_in_u16(3)
      first_write_fails_Exc]
  have l: "''left'' = ''left'' \<or> ''left'' = ''right''" by simp
  show ?thesis
    using c [of "''left''" initial_world, THEN conjunct1, THEN mp, OF l]
      c [of "''both''" initial_world, THEN conjunct2, THEN mp, OF refl]
      example_in_u16(1) example_in_u16(2) example_in_u16(3)
    by (intro conjI)
qed

text \<open>
  C3. With in-range parameters and a device whose writes return or fail with an
  \<open>Exception\<close>, byte 2 of the report is 0x01 for 'left' and 0x00 for 'right'; for 'both'
  the first report carries 0x00 and the second 0x01.
\<close>

theorem C3_pad_byte:
  assumes "in_u16 amplitude" "in_u16 period" "in_u16 count"
    and "\<forall>k y. dev k = Some y \<longrightarrow> (\<exists>x. y = Exc x)"
  shows "(\<exists>m. write_calls (snd (send_haptic_pulse dev ''left'' amplitude period count w)) =
                  write_calls w @ [m] \<and> m ! 2 = 0x01) \<and>
         (\<exists>m. write_calls (snd (send_haptic_pulse dev ''right'' amplitude period count w)) =
                  write_calls w @ [m] \<and> m ! 2 = 0x00) \<and>
         (\<exists>m1 m2. write_calls (snd (send_haptic_pulse dev ''both'' amplitude period count w)) =
                  write_calls w @ [m1, m2] \<and> m1 ! 2 = 0x00 \<and> m2 ! 2 = 0x01)"
  by (simp add: send_haptic_pulse_all [OF assms] select_pads_def spec_wire_format_bytes)

theorem C3_pad_byte_witness:
  "(in_u16 0x8000 \<and> in_u16 0x0032 \<and> in_u16 4000) \<and>
   (\<exists>m. write_calls (snd (send_haptic_pulse first_write_fails ''left'' 0x8000 0x0032 4000
            initial_world)) = write_calls initial_world @ [m] \<and> m ! 2 = 0x01) \<and>
   (\<exists>m. write_calls (snd (send_haptic_pulse first_write_fails ''right'' 0x8000 0x0032 4000
            initial_world)) = write_calls initial_world @ [m] \<and> m ! 2 = 0x00) \<and>
   (\<exists>m1 m2. write_calls (snd (send_haptic_pulse first_write_fails ''both'' 0x8000 0x0032 4000
            initial_world)) = write_calls initial_world @ [m1, m2] \<and>
          m1 ! 2 = 0x00 \<and> m2 ! 2 = 0x01)"
  using C3_pad_byte [OF example_in_u16(1) example_in_u16(2) example_in_u16(3)
      first_write_fails_Exc, of initial_world]
    example_in_u16(1) example_in_u16(2) example_in_u16(3)
  by blast

text \<open>
  C4, as amended. With amplitude, period and count in the 16-bit range the encoder
  produces at least one buffer, every buffer is exactly 64 bytes and each field holds
  its value modulo 2^16. A value outside that range is neither truncated nor wrapped:
  \<open>struct.pack\<close> raises \<open>struct.error\<close> before the first write, the exception leaves
  \<open>send_haptic_pulse\<close>, and no buffer is written.
\<close>

theorem C4_out_of_range_rejected:
  "(in_u16 amplitude \<and> in_u16 period \<and> in_u16 count \<longrightarrow>
      (\<exists>ms. write_calls (snd (send_haptic_pulse dev pad amplitude period count w)) =
              write_calls w @ ms \<and> ms \<noteq> [] \<and>
            (\<forall>m\<in>set ms. length m = 64 \<and>
               le16_decode (m ! 3) (m ! 4) = amplitude mod 2 ^ 16 \<and>
               le16_decode (m ! 5) (m ! 6) = period mod 2 ^ 16 \<and>
               le16_decode (m ! 7) (m ! 8) = count mod 2 ^ 16))) \<and>
   (\<not> (in_u16 amplitude \<and> in_u16 period \<and> in_u16 count) \<longrightarrow>
      (\<exists>msg. send_haptic_pulse dev pad amplitude period count w =
              (Inl (Exc (StructError msg)), w)))"
proof (intro conjI impI)
  assume r: "in_u16 amplitude \<and> in_u16 period \<and> in_u16 count"
  then have ra: "in_u16 amplitude" and rp: "in_u16 period" and rc: "in_u16 count" by simp_all
  let ?f = "\<lambda>q. spec_wire_format q amplitude period count"
  from send_haptic_pulse_first [OF ra rp rc, of pad dev w] obtain pid n where
    n: "write_calls (snd (send_haptic_pulse dev pad amplitude period count w)) =
          write_calls w @ ?f pid # map ?f (take n (tl (select_pads pad)))"
    by blast
  have each: "length m = 64 \<and>
               le16_decode (m ! 3) (m ! 4) = amplitude mod 2 ^ 16 \<and>
               le16_decode (m ! 5) (m ! 6) = period mod 2 ^ 16 \<and>
               le16_decode (m ! 7) (m ! 8) = count mod 2 ^ 16"
    if "m \<in> set (?f pid # map ?f (take n (tl (select_pads pad))))" for m
  proof -
    from that obtain q where "m = ?f q" by auto
    then show ?thesis
      unfolding in_u16_mod [OF ra] in_u16_mod [OF rp] in_u16_mod [OF rc]
      using spec_wire_format_bytes [of q amplitude period count]
      by (simp add: le16_roundtrip ra rp rc)
  qed
  show "\<exists>ms. write_calls (snd (send_haptic_pulse dev pad amplitude period count w)) =
              write_calls w @ ms \<and> ms \<noteq> [] \<and>
            (\<forall>m\<in>set ms. length m = 64 \<and>
               le16_decode (m ! 3) (m ! 4) = amplitude mod 2 ^ 16 \<and>
               le16_decode (m ! 5) (m ! 6) = period mod 2 ^ 16 \<and>
               le16_decode (m ! 7) (m ! 8) = count mod 2 ^ 16)"
    using n each by blast
next
  assume bad: "\<not> (in_u16 amplitude \<and> in_u16 period \<and> in_u16 count)"
  obtain pid pads where sp: "select_pads pad = pid # pads"
    using select_pads_Cons by blast
  show "\<exists>msg. send_haptic_pulse dev pad amplitude period count w =
              (Inl (Exc (StructError msg)), w)"
    unfolding send_haptic_pulse_def sp by (rule send_pads_reject [OF bad])
qed

theorem C4_out_of_range_rejected_witness:
  "(in_u16 0x8000 \<and> in_u16 0x0032 \<and> in_u16 4000) \<and>
   (\<exists>ms. write_calls (snd (send_haptic_pulse no_answer ''both'' 0x8000 0x0032 4000 initial_world)) =
              write_calls initial_world @ ms \<and> ms \<noteq> [] \<and>
            (\<forall>m\<in>set ms. length m = 64 \<and>
               le16_decode (m ! 3) (m ! 4) = 0x8000 mod 2 ^ 16 \<and>
               le16_decode (m ! 5) (m ! 6) = 0x0032 mod 2 ^ 16 \<and>
               le16_decode (m ! 7) (m ! 8) = 4000 mod 2 ^ 16)) \<and>
   \<not> (in_u16 0x10000 \<and> in_u16 0x0032 \<and> in_u16 4000) \<and>
   (\<exists>msg. send_haptic_pulse no_answer ''both'' 0x10000 0x0032 4000 initial_world =
              (Inl (Exc (StructError msg)), initial_world))"
proof -
  have r: "in_u16 0x8000 \<and> in_u16 0x0032 \<and> in_u16 4000"
    by (simp add: in_u16_def)
  have b: "\<not> (in_u16 0x10000 \<and> in_u16 0x0032 \<and> in_u16 4000)"
    by (simp add: in_u16_def)
  note good = C4_out_of_range_rejected [of "0x8000" "0x0032" 4000 no_answer "''both''" initial_world,
      THEN conjunct1, THEN mp, OF r]
  note bad = C4_out_of_range_rejected [of "0x10000" "0x0032" 4000 no_answer "''both''" initial_world,
      THEN conjunct2, THEN mp, OF b]
  show ?thesis
    using r good b bad by blast
qed

text \<open>
  The claim as written fails for amplitude 0x10000: the call raises and hands no buffer
  to the device, where the claim promises a 64-byte buffer with the value wrapped.
\<close>

theorem C4_truncation_counterexample:
  "fst (send_haptic_pulse no_answer ''left'' 0x10000 0x0032 4000 initial_world) =
     Inl (Exc (StructError ''ushort format requires 0 <= number <= 65535'')) \<and>
   write_calls (snd (send_haptic_pulse no_answer ''left'' 0x10000 0x0032 4000 initial_world)) = []"
  by (simp add: send_haptic_pulse_def select_pads_def send_pads.simps(2) struct_pack_BBBHHH_def
      pack_B_def pack_H_def HAPTIC_CMD_def HAPTIC_SUBCMD_def initial_world_def)

section \<open>The device locator\<close>

text \<open>
  C5. The claim does not hold of the code. On a Steam Deck, whose controller lists
  interfaces 0, 1 and 2, \<open>find_steam_deck_controller\<close> finds the entry with interface
  number 2 and then returns a new \<open>hid.device()\<close> that is not open and is not bound to
  that entry; \<open>main\<close> never calls it and opens by vendor and product id alone, which
  reaches the first interface listed, interface 0.
\<close>

theorem C5_locator_does_not_open_haptic_interface:
  "find_steam_deck_controller example_env initial_world =
     (Inr (Some (HidDevice None)), initial_world) \<and>
   device_open example_env VALVE_VENDOR_ID STEAM_DECK_PRODUCT_ID initial_world =
     (Inr (), initial_world\<lparr>opened := Some ''/dev/hidraw0''\<rparr>) \<and>
   map interface_number (filter (\<lambda>d. path d = ''/dev/hidraw0'') (attached example_env)) = [0]"
  by (simp add: find_steam_deck_controller_def device_open_def hid_enumerate_def example_env_def
      deck_interfaces_def VALVE_VENDOR_ID_def STEAM_DECK_PRODUCT_ID_def)

section \<open>The driver\<close>




text \<open>
  C7. When device writes fail with an \<open>Exception\<close>, in any pattern,
  \<open>send_haptic_pulse\<close> still returns normally, has made exactly one write call per pad
  of the selector (no retry, no report skipped) and has printed one line per failed
  call; and the loop still runs every iteration up to the interrupt, two write calls
  and one sleep each.
\<close>

theorem C7_write_failure_does_not_abort:
  assumes wr: "\<forall>k y. write_result e k = Some y \<longrightarrow> (\<exists>x. y = Exc x)"
  shows "(in_u16 amplitude \<and> in_u16 period \<and> in_u16 count \<longrightarrow>
            send_haptic_pulse (write_result e) pad amplitude period count w =
              (Inr (),
               w\<lparr>write_calls := write_calls w @
                    map (\<lambda>pad_id. spec_wire_format pad_id amplitude period count) (select_pads pad),
                 stdout := stdout w @ concat (map (error_line (write_result e))
                    [length (write_calls w) ..<
                     length (write_calls w) + length (select_pads pad)])\<rparr>)) \<and>
         ((\<forall>k<n. sleep_result e (length (sleep_calls w) + k) = None) \<and>
          (\<forall>k<n. \<not> sigint_at_iteration e (pc + k)) \<and> sigint_at_iteration e (pc + n) \<longrightarrow>
            main_loop e pc w =
              Some (KeyboardInterrupt,
                w\<lparr>write_calls := write_calls w @ concat (replicate n pulse_reports),
                   sleep_calls := sleep_calls w @ replicate n 2,
                   stdout := stdout w @ concat (map (error_line (write_result e))
                      [length (write_calls w) ..< length (write_calls w) + 2 * n])\<rparr>))"
proof (intro conjI impI)
  assume "in_u16 amplitude \<and> in_u16 period \<and> in_u16 count"
  then have r: "in_u16 amplitude" "in_u16 period" "in_u16 count" by simp_all
  show "send_haptic_pulse (write_result e) pad amplitude period count w =
              (Inr (),
               w\<lparr>write_calls := write_calls w @
                    map (\<lambda>pad_id. spec_wire_format pad_id amplitude period count) (select_pads pad),
                 stdout := stdout w @ concat (map (error_line (write_result e))
                    [length (write_calls w) ..<
                     length (write_calls w) + length (select_pads pad)])\<rparr>)"
    by (rule send_haptic_pulse_all [OF r wr])
next
  assume a: "(\<forall>k<n. sleep_result e (length (sleep_calls w) + k) = None) \<and>
          (\<forall>k<n. \<not> sigint_at_iteration e (pc + k)) \<and> sigint_at_iteration e (pc + n)"
  show "main_loop e pc w =
              Some (KeyboardInterrupt,
                w\<lparr>write_calls := write_calls w @ concat (replicate n pulse_reports),
                   sleep_calls := sleep_calls w @ replicate n 2,
                   stdout := stdout w @ concat (map (error_line (write_result e))
                      [length (write_calls w) ..< length (write_calls w) + 2 * n])\<rparr>)"
    by (rule main_loop_sigint [OF wr]) (use a in simp_all)
qed

theorem C7_write_failure_does_not_abort_witness:
  "write_result example_env 0 = Some (Exc (OSError ''write error'')) \<and>
   (in_u16 0x8000 \<and> in_u16 0x0032 \<and> in_u16 4000) \<and>
   fst (send_haptic_pulse (write_result example_env) ''both'' 0x8000 0x0032 4000 initial_world) =
     Inr () \<and>
   write_calls (snd (send_haptic_pulse (write_result example_env) ''both'' 0x8000 0x0032 4000
     initial_world)) = pulse_reports \<and>
   stdout (snd (send_haptic_pulse (write_result example_env) ''both'' 0x8000 0x0032 4000
     initial_world)) = [''Error sending haptic command: write error''] \<and>
   (\<exists>w'. main_loop example_env 0 initial_world = Some (KeyboardInterrupt, w') \<and>
         write_calls w' = concat (replicate 3 pulse_reports) \<and>
         stdout w' = [''Error sending haptic command: write error''])"
proof -
  note c = C7_write_failure_does_not_abort [OF example_env_writes]
  have r: "in_u16 0x8000 \<and> in_u16 0x0032 \<and> in_u16 4000"
    by (simp add: in_u16_def)
  have f: "write_result example_env 0 = Some (Exc (OSError ''write error''))"
    by (simp add: example_env_def first_write_fails_def)
  note s = c [of "0x8000" "0x0032" 4000 "''both''" initial_world, THEN conjunct1, THEN mp, OF r]
  have l: "(\<forall>k<3. sleep_result example_env (length (sleep_calls initial_world) + k) = None) \<and>
          (\<forall>k<3. \<not> sigint_at_iteration example_env (0 + k)) \<and>
          sigint_at_iteration example_env (0 + 3)"
    by (simp add: example_env_def)
  note m = c [of _ _ _ _ initial_world 3 0, THEN conjunct2, THEN mp, OF l]
  have lines: "concat (map (error_line (write_result example_env)) [0..<6]) =
      [''Error sending haptic command: write error'']"
    by (simp add: upt_rec error_line_def example_env_def first_write_fails_def)
  have s1: "fst (send_haptic_pulse (write_result example_env) ''both'' 0x8000 0x0032 4000
      initial_world) = Inr ()"
    unfolding s by simp
  have s2: "write_calls (snd (send_haptic_pulse (write_result example_env) ''both'' 0x8000 0x0032
      4000 initial_world)) = pulse_reports"
    unfolding s by (simp add: initial_world_def select_pads_def pulse_reports_def)
  have s3: "stdout (snd (send_haptic_pulse (write_result example_env) ''both'' 0x8000 0x0032 4000
     initial_world)) = [''Error sending haptic command: write error'']"
    unfolding s
    by (simp add: initial_world_def select_pads_def error_line_def example_env_def
        first_write_fails_def)
  have s4: "\<exists>w'. main_loop example_env 0 initial_world = Some (KeyboardInterrupt, w') \<and>
         write_calls w' = concat (replicate 3 pulse_reports) \<and>
         stdout w' = [''Error sending haptic command: write error'']"
    unfolding m using lines by (simp add: initial_world_def)
  from f r s1 s2 s3 s4 show ?thesis by blast
qed

text \<open>
  C8, as amended. Every run of \<open>main\<close> that enters the \<open>try\<close> of line 82 and ends, with no
  interrupt in the \<open>finally\<close> clause before the call, has made exactly one \<open>close\<close> call
  and leaves the handle closed. The run ends that way when the open raises (no write
  call), when Ctrl+C arrives after n completed iterations (exactly n write cycles of
  two reports), and when Ctrl+C arrives during the sleep of iteration n + 1 (exactly
  n + 1 write cycles). Ctrl+C between the creation of the handle on line 80 and the
  \<open>try\<close>, or in the \<open>finally\<close> clause before the call, ends the run without a \<open>close\<close>
  call.
\<close>

theorem C8_handle_closed_once:
  "(enters_try e \<and> \<not> sigint_at e InFinally \<and> main e w = Some (r, w') \<longrightarrow>
      close_calls w' = close_calls w + 1 \<and> opened w' = None) \<and>
   (enters_try e \<and> \<not> sigint_at e InFinally \<and> \<not> sigint_at e DuringOpen \<and>
    isl (fst (device_open e VALVE_VENDOR_ID STEAM_DECK_PRODUCT_ID w)) \<longrightarrow>
      (\<exists>r w'. main e w = Some (r, w') \<and> write_calls w' = write_calls w \<and>
               close_calls w' = close_calls w + 1)) \<and>
   (enters_try e \<and> \<not> sigint_at e InFinally \<and> \<not> sigint_at e DuringOpen \<and>
    \<not> isl (fst (device_open e VALVE_VENDOR_ID STEAM_DECK_PRODUCT_ID w)) \<and>
    (\<forall>k y. write_result e k = Some y \<longrightarrow> (\<exists>x. y = Exc x)) \<and>
    (\<forall>k<n. sleep_result e (length (sleep_calls w) + k) = None) \<and>
    (\<forall>k<n. \<not> sigint_at_iteration e k) \<and> sigint_at_iteration e n \<longrightarrow>
      (\<exists>r w'. main e w = Some (r, w') \<and>
               write_calls w' = write_calls w @ concat (replicate n pulse_reports) \<and>
               close_calls w' = close_calls w + 1)) \<and>
   (enters_try e \<and> \<not> sigint_at e InFinally \<and> \<not> sigint_at e DuringOpen \<and>
    \<not> isl (fst (device_open e VALVE_VENDOR_ID STEAM_DECK_PRODUCT_ID w)) \<and>
    (\<forall>k y. write_result e k = Some y \<longrightarrow> (\<exists>x. y = Exc x)) \<and>
    (\<forall>k<n. sleep_result e (length (sleep_calls w) + k) = None) \<and>
    (\<forall>k<Suc n. \<not> sigint_at_iteration e k) \<and>
    sleep_result e (length (sleep_calls w) + n) = Some KeyboardInterrupt \<longrightarrow>
      (\<exists>r w'. main e w = Some (r, w') \<and>
               write_calls w' = write_calls w @ concat (replicate (Suc n) pulse_reports) \<and>
               close_calls w' = close_calls w + 1)) \<and>
   (hid_installed e \<and> \<not> sigint_at e AtStart \<and> \<not> sigint_at e AtImport \<and>
    sigint_at e AfterCreate \<longrightarrow>
      (\<exists>w'. main e w = Some (Inl KeyboardInterrupt, w') \<and> close_calls w' = close_calls w)) \<and>
   (enters_try e \<and> sigint_at e InFinally \<and> main e w = Some (r, w') \<longrightarrow>
      r = Inl KeyboardInterrupt \<and> close_calls w' = close_calls w)"
proof (intro conjI impI)
  assume "enters_try e \<and> \<not> sigint_at e InFinally \<and> main e w = Some (r, w')"
  then have h: "enters_try e" and f: "\<not> sigint_at e InFinally"
    and m: "main e w = Some (r, w')" by simp_all
  from main_exit_closes [OF h f m]
  show "close_calls w' = close_calls w + 1" and "opened w' = None" by simp_all
next
  assume a: "enters_try e \<and> \<not> sigint_at e InFinally \<and> \<not> sigint_at e DuringOpen \<and>
    isl (fst (device_open e VALVE_VENDOR_ID STEAM_DECK_PRODUCT_ID w))"
  have "\<exists>r w'. main e w = Some (r, w') \<and> exit_status r \<noteq> 0 \<and>
           write_calls w' = write_calls w \<and> sleep_calls w' = sleep_calls w \<and>
           (\<not> sigint_at e InFinally \<longrightarrow> close_calls w' = close_calls w + 1 \<and> opened w' = None)"
    by (rule main_open_fails) (use a in simp_all)
  with a show "\<exists>r w'. main e w = Some (r, w') \<and> write_calls w' = write_calls w \<and>
               close_calls w' = close_calls w + 1"
    by blast
next
  assume a: "enters_try e \<and> \<not> sigint_at e InFinally \<and> \<not> sigint_at e DuringOpen \<and>
    \<not> isl (fst (device_open e VALVE_VENDOR_ID STEAM_DECK_PRODUCT_ID w)) \<and>
    (\<forall>k y. write_result e k = Some y \<longrightarrow> (\<exists>x. y = Exc x)) \<and>
    (\<forall>k<n. sleep_result e (length (sleep_calls w) + k) = None) \<and>
    (\<forall>k<n. \<not> sigint_at_iteration e k) \<and> sigint_at_iteration e n"
  have "\<exists>r w'. main e w = Some (r, w') \<and>
           (\<not> sigint_at e InInterruptHandler \<longrightarrow> r = Inr ()) \<and>
           write_calls w' = write_calls w @ concat (replicate n pulse_reports) \<and>
           sleep_calls w' = sleep_calls w @ replicate n 2 \<and>
           close_calls w' = close_calls w + 1 \<and> opened w' = None"
    by (rule main_sigint) (use a in simp_all)
  then show "\<exists>r w'. main e w = Some (r, w') \<and>
               write_calls w' = write_calls w @ concat (replicate n pulse_reports) \<and>
               close_calls w' = close_calls w + 1"
    by blast
next
  assume a: "enters_try e \<and> \<not> sigint_at e InFinally \<and> \<not> sigint_at e DuringOpen \<and>
    \<not> isl (fst (device_open e VALVE_VENDOR_ID STEAM_DECK_PRODUCT_ID w)) \<and>
    (\<forall>k y. write_result e k = Some y \<longrightarrow> (\<exists>x. y = Exc x)) \<and>
    (\<forall>k<n. sleep_result e (length (sleep_calls w) + k) = None) \<and>
    (\<forall>k<Suc n. \<not> sigint_at_iteration e k) \<and>
    sleep_result e (length (sleep_calls w) + n) = Some KeyboardInterrupt"
  have "\<exists>r w'. main e w = Some (r, w') \<and>
           (\<not> sigint_at e InInterruptHandler \<longrightarrow> r = Inr ()) \<and>
           write_calls w' = write_calls w @ concat (replicate (Suc n) pulse_reports) \<and>
           sleep_calls w' = sleep_calls w @ replicate (Suc n) 2 \<and>
           close_calls w' = close_calls w + 1 \<and> opened w' = None"
    by (rule main_sleep_interrupt) (use a in simp_all)
  then show "\<exists>r w'. main e w = Some (r, w') \<and>
               write_calls w' = write_calls w @ concat (replicate (Suc n) pulse_reports) \<and>
               close_calls w' = close_calls w + 1"
    by blast
next
  assume a: "hid_installed e \<and> \<not> sigint_at e AtStart \<and> \<not> sigint_at e AtImport \<and>
    sigint_at e AfterCreate"
  then have h: "hid_installed e"
    and s: "sigint_at e AtStart \<or> sigint_at e AtImport \<or> sigint_at e AfterCreate" by simp_all
  from main_before_try [OF h s, of w]
  show "\<exists>w'. main e w = Some (Inl KeyboardInterrupt, w') \<and> close_calls w' = close_calls w"
    by auto
next
  assume "enters_try e \<and> sigint_at e InFinally \<and> main e w = Some (r, w')"
  then have h: "enters_try e" and f: "sigint_at e InFinally"
    and m: "main e w = Some (r, w')" by simp_all
  from main_finally_interrupted [OF h f m]
  show "r = Inl KeyboardInterrupt" and "close_calls w' = close_calls w" by simp_all
qed

theorem C8_handle_closed_once_witness:
  "(\<exists>r w'. main env_without_device initial_world = Some (r, w') \<and> write_calls w' = [] \<and>
            close_calls w' = 1) \<and>
   (\<exists>r w'. main example_env initial_world = Some (r, w') \<and>
            write_calls w' = concat (replicate 3 pulse_reports) \<and>
            close_calls w' = 1 \<and> opened w' = None) \<and>
   (\<exists>r w'. main env_sleep_interrupted initial_world = Some (r, w') \<and>
            write_calls w' = concat (replicate 3 pulse_reports) \<and> close_calls w' = 1) \<and>
   (\<exists>w'. main env_sigint_after_create initial_world = Some (Inl KeyboardInterrupt, w') \<and>
         close_calls w' = 0)"
proof -
  note c = C8_handle_closed_once
  have z: "write_calls initial_world = []" "close_calls initial_world = 0"
    by (simp_all add: initial_world_def)
  have p2: "\<exists>r w'. main env_without_device initial_world = Some (r, w') \<and>
            write_calls w' = write_calls initial_world \<and>
            close_calls w' = close_calls initial_world + 1"
    using c [of env_without_device initial_world, THEN conjunct2, THEN conjunct1]
      env_without_device_interrupts(1) env_without_device_interrupts(2) [of InFinally]
      env_without_device_interrupts(2) [of DuringOpen]
      env_without_device_fields(2) [of initial_world]
    by blast
  have p3: "\<exists>r w'. main example_env initial_world = Some (r, w') \<and>
            write_calls w' = write_calls initial_world @ concat (replicate 3 pulse_reports) \<and>
            close_calls w' = close_calls initial_world + 1"
    using c [of example_env initial_world _ _ 3, THEN conjunct2, THEN conjunct2, THEN conjunct1]
      example_env_interrupts(1) example_env_interrupts(2) [of InFinally]
      example_env_interrupts(2) [of DuringOpen]
      example_env_fields(3) [of initial_world] example_env_writes
      example_env_fields(4) [of initial_world] example_env_fields(5) example_env_fields(6)
    by blast
  then obtain r w' where m: "main example_env initial_world = Some (r, w')"
    and w: "write_calls w' = write_calls initial_world @ concat (replicate 3 pulse_reports)"
      "close_calls w' = close_calls initial_world + 1"
    by blast
  from c [of example_env initial_world r w', THEN conjunct1]
    example_env_interrupts(1) example_env_interrupts(2) [of InFinally] m
  have "opened w' = None" by blast
  with m w have p1: "\<exists>r w'. main example_env initial_world = Some (r, w') \<and>
            write_calls w' = write_calls initial_world @ concat (replicate 3 pulse_reports) \<and>
            close_calls w' = close_calls initial_world + 1 \<and> opened w' = None"
    by blast
  have p4: "\<exists>r w'. main env_sleep_interrupted initial_world = Some (r, w') \<and>
            write_calls w' = write_calls initial_world @ concat (replicate (Suc 2) pulse_reports) \<and>
            close_calls w' = close_calls initial_world + 1"
    using c [of env_sleep_interrupted initial_world _ _ 2, THEN conjunct2, THEN conjunct2,
        THEN conjunct2, THEN conjunct1]
      env_sleep_interrupted_interrupts(1) env_sleep_interrupted_interrupts(2) [of InFinally]
      env_sleep_interrupted_interrupts(2) [of DuringOpen]
      env_sleep_interrupted_fields(2) [of initial_world]
      env_sleep_interrupted_fields(3) env_sleep_interrupted_fields(4)
      env_sleep_interrupted_fields(5) env_sleep_interrupted_fields(6)
    by blast
  have p5: "\<exists>w'. main env_sigint_after_create initial_world = Some (Inl KeyboardInterrupt, w') \<and>
         close_calls w' = close_calls initial_world"
    using c [of env_sigint_after_create initial_world, THEN conjunct2, THEN conjunct2,
        THEN conjunct2, THEN conjunct2, THEN conjunct1]
      env_sigint_after_create_fields
    by blast
  have three: "Suc 2 = 3" by simp
  from p2 p1 p4 p5 show ?thesis
    unfolding z three by simp
qed

text \<open>
  The claim as written fails for Ctrl+C right after line 80: the handle exists, the
  run ends, and \<open>close\<close> was never called.
\<close>

theorem C8_interrupt_after_create_counterexample:
  "hid_installed env_sigint_after_create \<and>
   map_option fst (main env_sigint_after_create initial_world) = Some (Inl KeyboardInterrupt) \<and>
   map_option (close_calls \<circ> snd) (main env_sigint_after_create initial_world) = Some 0"
  by (simp add: main_def env_sigint_after_create_def example_env_def initial_world_def print_def)

section \<open>Round trip and default selector\<close>

text \<open>
  C9. With in-range parameters \<open>send_haptic_pulse\<close> writes at least one report, and in
  every report it writes the little-endian decoding of bytes 3-4, 5-6 and 7-8 gives
  back the amplitude, the period and the count.
\<close>

theorem C9_field_roundtrip:
  assumes "in_u16 amplitude" "in_u16 period" "in_u16 count"
  shows "length (write_calls w) <
           length (write_calls (snd (send_haptic_pulse dev pad amplitude period count w))) \<and>
         (\<forall>i. length (write_calls w) \<le> i \<and>
              i < length (write_calls (snd (send_haptic_pulse dev pad amplitude period count w))) \<longrightarrow>
              (let m = write_calls (snd (send_haptic_pulse dev pad amplitude period count w)) ! i
               in le16_decode (m ! 3) (m ! 4) = amplitude \<and>
                  le16_decode (m ! 5) (m ! 6) = period \<and>
                  le16_decode (m ! 7) (m ! 8) = count))"
proof -
  let ?w' = "snd (send_haptic_pulse dev pad amplitude period count w)"
  let ?f = "\<lambda>pid. spec_wire_format pid amplitude period count"
  obtain pid pads where sp: "select_pads pad = pid # pads"
    using select_pads_Cons by blast
  have rng: "\<forall>q\<in>set (pid # pads). 0 \<le> q \<and> q \<le> 255"
    using select_pads_range [of pad] unfolding sp .
  then have r: "0 \<le> pid" "pid \<le> 255" and rest: "\<forall>q\<in>set pads. 0 \<le> q \<and> q \<le> 255"
    by simp_all
  from send_pads_prefix [OF assms rng, of dev w]
  obtain n where
    n: "write_calls ?w' = write_calls w @ map ?f (take n (pid # pads))"
    unfolding send_haptic_pulse_def sp by blast
  have first: "length (write_calls w) < length (write_calls ?w')"
  proof -
    let ?w1 = "w\<lparr>write_calls := write_calls w @ [?f pid]\<rparr>"
    have grow: "length (write_calls w) < length (write_calls (snd (send_pads dev pads amplitude period count v)))"
      if "length (write_calls w) < length (write_calls v)" for v
      using send_pads_prefix [OF assms rest, of dev v] that by auto
    show ?thesis
      unfolding send_haptic_pulse_def sp send_pads_step [OF assms r]
      by (auto split: option.splits py_exc.splits intro!: grow simp: print_def)
  qed
  have each: "le16_decode (m ! 3) (m ! 4) = amplitude \<and>
          le16_decode (m ! 5) (m ! 6) = period \<and> le16_decode (m ! 7) (m ! 8) = count"
    if "m \<in> set (map ?f (take n (pid # pads)))" for m
  proof -
    from that obtain q where "m = ?f q" by auto
    then show ?thesis
      using spec_wire_format_bytes [of q amplitude period count]
      by (simp add: le16_roundtrip assms)
  qed
  have nth: "write_calls ?w' ! i \<in> set (map ?f (take n (pid # pads)))"
    if "length (write_calls w) \<le> i" "i < length (write_calls ?w')" for i
  proof -
    from that(2) have "i < length (write_calls w) + length (map ?f (take n (pid # pads)))"
      unfolding n by simp
    with that(1) have "i - length (write_calls w) < length (map ?f (take n (pid # pads)))"
      by linarith
    then have "map ?f (take n (pid # pads)) ! (i - length (write_calls w))
                 \<in> set (map ?f (take n (pid # pads)))"
      by (rule nth_mem)
    moreover have "write_calls ?w' ! i = map ?f (take n (pid # pads)) ! (i - length (write_calls w))"
      using that(1) unfolding n by (simp add: nth_append)
    ultimately show ?thesis by simp
  qed
  show ?thesis
    using first each nth unfolding Let_def by blast
qed

theorem C9_field_roundtrip_witness:
  "(in_u16 0x8000 \<and> in_u16 0x0032 \<and> in_u16 4000) \<and>
   length (write_calls initial_world) <
     length (write_calls (snd (send_haptic_pulse no_answer ''left'' 0x8000 0x0032 4000 initial_world))) \<and>
   (let m = write_calls (snd (send_haptic_pulse no_answer ''left'' 0x8000 0x0032 4000 initial_world)) ! 0
    in le16_decode (m ! 3) (m ! 4) = 0x8000 \<and>
       le16_decode (m ! 5) (m ! 6) = 0x0032 \<and>
       le16_decode (m ! 7) (m ! 8) = 4000)"
proof -
  note c = C9_field_roundtrip [OF example_in_u16(1) example_in_u16(2) example_in_u16(3),
      of initial_world no_answer "''left''"]
  have z: "length (write_calls initial_world) = 0"
    by (simp add: initial_world_def)
  from c have pos: "length (write_calls initial_world) <
     length (write_calls (snd (send_haptic_pulse no_answer ''left'' 0x8000 0x0032 4000 initial_world)))"
    by (rule conjunct1)
  from c [THEN conjunct2, THEN spec, of 0] pos z
  have "let m = write_calls (snd (send_haptic_pulse no_answer ''left'' 0x8000 0x0032 4000 initial_world)) ! 0
    in le16_decode (m ! 3) (m ! 4) = 0x8000 \<and>
       le16_decode (m ! 5) (m ! 6) = 0x0032 \<and>
       le16_decode (m ! 7) (m ! 8) = 4000"
    by simp
  with pos example_in_u16(1) example_in_u16(2) example_in_u16(3) show ?thesis
    by (intro conjI)
qed

text \<open>
  C10. Any selector other than 'both' and 'left' takes the \<open>else\<close> branch: with in-range
  parameters and a device whose writes return or fail with an \<open>Exception\<close>, exactly one
  64-byte report is written and its pad byte is 0x00.
\<close>

theorem C10_other_selectors_right:
  assumes "in_u16 amplitude" "in_u16 period" "in_u16 count"
    and "\<forall>k y. dev k = Some y \<longrightarrow> (\<exists>x. y = Exc x)"
    and "pad \<noteq> ''both''" "pad \<noteq> ''left''"
  shows "\<exists>m. write_calls (snd (send_haptic_pulse dev pad amplitude period count w)) =
                  write_calls w @ [m] \<and> length m = 64 \<and> m ! 2 = 0x00"
  using assms(5,6)
  by (simp add: send_haptic_pulse_all [OF assms(1-4)] select_pads_def spec_wire_format_bytes)

theorem C10_other_selectors_right_witness:
  "(in_u16 0x8000 \<and> in_u16 0x0050 \<and> in_u16 4) \<and>
   ''rihgt'' \<noteq> ''both'' \<and> ''rihgt'' \<noteq> ''left'' \<and>
   (\<exists>m. write_calls (snd (send_haptic_pulse no_answer ''rihgt'' 0x8000 0x0050 4 initial_world)) =
          write_calls initial_world @ [m] \<and> length m = 64 \<and> m ! 2 = 0x00)"
proof -
  have n1: "''rihgt'' \<noteq> ''both''" and n2: "''rihgt'' \<noteq> ''left''" by simp_all
  show ?thesis
    using C10_other_selectors_right [OF example_in_u16(1) example_in_u16(4) example_in_u16(5)
        no_answer_Exc n1 n2, of initial_world]
      n1 n2 example_in_u16(1) example_in_u16(4) example_in_u16(5)
    by (intro conjI)
qed

end
